theory Spec2Isabelle
  imports Complex_Main
begin

section \<open>The audio summarisation pipeline: data model\<close>

text \<open>
  A shallow embedding of the job pipeline of the API server:
  \<^verbatim>\<open>api/src/services/processor.ts\<close> (job registry, queue and the staged pipeline),
  \<^verbatim>\<open>api/src/services/openai.ts\<close> (transcription and summarisation clients) and the
  time estimate of \<^verbatim>\<open>api/src/routes/upload.ts\<close>.

  Conventions. A JavaScript \<^verbatim>\<open>number\<close> that carries a fraction is the \<^typ>\<open>real\<close> the
  double denotes. In the confidence computations of \<^verbatim>\<open>openai.ts\<close> the arithmetic is that of
  the doubles: a decimal literal is rounded to the nearest double and so is the exact result
  of every operation (\<open>fl\<close> below). The time estimate is computed over the reals: on each
  of its twelve inputs the doubles round to the same integer. Infinities and NaN are not
  modelled. Times (\<^verbatim>\<open>Date\<close>, \<^verbatim>\<open>Date.now()\<close>) are
  milliseconds as \<^typ>\<open>int\<close>. An optional property is an \<^typ>\<open>'a option\<close>, with
  \<^term>\<open>None\<close> for \<^verbatim>\<open>undefined\<close>. Where a TypeScript property name is an Isabelle keyword or
  is used by several interfaces, the field carries a prefix; the comment beside the record
  says which.
\<close>

datatype UploadType = File | Url

datatype DetailLevel = Brief | Standard | Deep

datatype JobStatus = Queued | Processing | Completed | Failed

text \<open>\<^verbatim>\<open>UploadOptions\<close> (types): \<^verbatim>\<open>lang?\<close>, \<^verbatim>\<open>detail\<close>, \<^verbatim>\<open>timestamps\<close>.\<close>

record UploadOptions =
  lang :: "string option"
  detail :: DetailLevel
  timestamps :: bool

text \<open>
  \<^verbatim>\<open>UploadRequest\<close>: \<^verbatim>\<open>type\<close>, \<^verbatim>\<open>file?\<close>, \<^verbatim>\<open>url?\<close>, \<^verbatim>\<open>options\<close>, fields prefixed \<open>req_\<close>.
  Of the uploaded file only \<^verbatim>\<open>file.filename\<close> is read, so \<open>req_file\<close> holds that name.
\<close>

record UploadRequest =
  req_type :: UploadType
  req_file :: "string option"
  req_url :: "string option"
  req_options :: UploadOptions

text \<open>
  A thrown value: an \<^verbatim>\<open>Error\<close> object with its message, or anything else. Every handler of
  the pipeline reads \<^verbatim>\<open>error instanceof Error ? error.message : 'Unknown error'\<close>.
\<close>

datatype thrown = Error string | NonError

definition errorMessage :: "thrown \<Rightarrow> string" where
  "errorMessage e = (case e of Error m \<Rightarrow> m | NonError \<Rightarrow> ''Unknown error'')"

text \<open>JavaScript truthiness of an optional string: defined and not empty.\<close>

definition truthy :: "string option \<Rightarrow> bool" where
  "truthy v = (case v of None \<Rightarrow> False | Some x \<Rightarrow> x \<noteq> [])"

text \<open>\<^verbatim>\<open>v || d\<close> on an optional string, an optional number and an optional array.\<close>

definition or_string :: "string option \<Rightarrow> string \<Rightarrow> string" where
  "or_string v d = (if truthy v then the v else d)"

definition or_number :: "real option \<Rightarrow> real \<Rightarrow> real" where
  "or_number v d = (case v of None \<Rightarrow> d | Some x \<Rightarrow> if x = 0 then d else x)"

definition or_array :: "'a list option \<Rightarrow> 'a list \<Rightarrow> 'a list" where
  "or_array v d = (case v of None \<Rightarrow> d | Some xs \<Rightarrow> xs)"

text \<open>\<^verbatim>\<open>Math.round\<close>: the nearest integer, a half rounding up.\<close>

definition Math_round :: "real \<Rightarrow> int" where
  "Math_round x = \<lfloor>x + 1 / 2\<rfloor>"

text \<open>
  The doubles (IEEE 754 binary64) and their rounding. A double is an integer multiple of a
  power of two: 53 bits of significand above the exponent of the value, and no exponent
  below -1022 (the subnormal range). \<open>fl x\<close> is the double nearest to \<open>x\<close>, a tie going to
  the even significand, which is how JavaScript rounds a literal and the exact result of
  \<^verbatim>\<open>+\<close>, \<^verbatim>\<open>*\<close> and \<^verbatim>\<open>/\<close>. Values beyond the largest double would be infinite in
  JavaScript; that does not arise for confidences, which are at most 1.
\<close>

definition pow2 :: "int \<Rightarrow> real" where
  "pow2 e = (if 0 \<le> e then 2 ^ nat e else 1 / 2 ^ nat (- e))"

definition round_even :: "real \<Rightarrow> int" where
  "round_even y =
     (let f = \<lfloor>y\<rfloor>
      in if y - real_of_int f < 1 / 2 then f
         else if 1 / 2 < y - real_of_int f then f + 1
         else if even f then f else f + 1)"

definition exponent :: "real \<Rightarrow> int" where
  "exponent x = max \<lfloor>log 2 \<bar>x\<bar>\<rfloor> (- 1022)"

definition fl :: "real \<Rightarrow> real" where
  "fl x =
     (if x = 0 then 0
      else real_of_int (round_even (x / pow2 (exponent x - 52))) * pow2 (exponent x - 52))"


section \<open>The time estimate (routes/upload.ts)\<close>

text \<open>
  \<^verbatim>\<open>ProcessorService.estimateProcessingTime\<close>, statement by statement: the \<^verbatim>\<open>switch\<close> on
  the detail level with its empty \<^verbatim>\<open>default\<close>, then the two \<^verbatim>\<open>if\<close>s, then \<^verbatim>\<open>Math.round\<close>.
\<close>

definition estimateProcessingTime :: "UploadRequest \<Rightarrow> int" where
  "estimateProcessingTime request =
     (let baseTime = 60;
          baseTime = (case detail (req_options request) of
                        Brief \<Rightarrow> baseTime * (7 / 10)
                      | Deep \<Rightarrow> baseTime * (3 / 2)
                      | Standard \<Rightarrow> baseTime);
          baseTime = (if timestamps (req_options request) then baseTime * (6 / 5) else baseTime);
          baseTime = (if req_type request = Url then baseTime + 30 else baseTime)
      in Math_round baseTime)"


section \<open>The transcription client (services/openai.ts)\<close>

text \<open>
  \<^verbatim>\<open>Timestamp\<close>, a transcript segment: \<^verbatim>\<open>start\<close>, \<^verbatim>\<open>end\<close>, \<^verbatim>\<open>text\<close> (prefixed \<open>seg_\<close>)
  and the optional \<^verbatim>\<open>confidence\<close>.
\<close>

record Timestamp =
  seg_start :: real
  seg_end :: real
  seg_text :: string
  confidence :: "real option"

text \<open>
  \<^verbatim>\<open>calculateOverallConfidence\<close>. The parameter is an array at its only call site
  (\<^verbatim>\<open>transcription.segments?.map(...) || []\<close>), so the \<^verbatim>\<open>!segments\<close> half of the first
  test never fires. \<^verbatim>\<open>map\<close>, then \<^verbatim>\<open>filter\<close>, then \<^verbatim>\<open>reduce\<close> from 0, as written, in
  the arithmetic of the doubles: each sum, the quotient by the length, the product by 100
  and the quotient by 100 are rounded; \<^verbatim>\<open>Math.round\<close> is exact. The length is an integer
  below \<open>2 ^ 32\<close> and so a double.
\<close>

definition calculateOverallConfidence :: "Timestamp list \<Rightarrow> real" where
  "calculateOverallConfidence segments =
     (if length segments = 0 then fl (8 / 10)
      else
        let confidences = filter (\<lambda>c. c \<noteq> None) (map confidence segments)
        in if length confidences = 0 then fl (8 / 10)
           else
             let average = fl (foldl (\<lambda>sum conf. fl (sum + the conf)) 0 confidences
                                 / real (length confidences))
             in fl (real_of_int (Math_round (fl (average * 100))) / 100))"

text \<open>
  The verbose transcription the service returns. \<open>raw_avg_logprob\<close> is the segment's
  \<^verbatim>\<open>avg_logprob\<close>; the optional properties are the ones the code guards with \<^verbatim>\<open>?.\<close> or
  \<^verbatim>\<open>||\<close>.
\<close>

record RawSegment =
  raw_start :: real
  raw_end :: real
  raw_text :: string
  raw_avg_logprob :: "real option"

record RawTranscription =
  rt_text :: string
  rt_language :: "string option"
  rt_duration :: "real option"
  rt_segments :: "RawSegment list option"

text \<open>\<^verbatim>\<open>TranscriptionResponse\<close>, fields prefixed \<open>tr_\<close>.\<close>

record TranscriptionResponse =
  tr_text :: string
  tr_language :: string
  tr_duration :: real
  tr_segments :: "Timestamp list"
  tr_confidence :: real

text \<open>\<^verbatim>\<open>String.prototype.trim\<close>, on the ASCII white space.\<close>

definition is_space :: "char \<Rightarrow> bool" where
  "is_space c = (c \<in> set [CHR '' '', CHR 0x09, CHR 0x0A, CHR 0x0B, CHR 0x0C, CHR 0x0D])"

definition trim :: "string \<Rightarrow> string" where
  "trim s = rev (dropWhile is_space (rev (dropWhile is_space s)))"

text \<open>
  The segment conversion of \<^verbatim>\<open>transcribeAudio\<close>:
  \<^verbatim>\<open>confidence: segment.avg_logprob ? Math.exp(segment.avg_logprob) : undefined\<close>; a log
  probability of 0 is falsy. \<^verbatim>\<open>Math.exp\<close> is taken to return the double nearest to the
  exponential.
\<close>

definition convertSegment :: "RawSegment \<Rightarrow> Timestamp" where
  "convertSegment segment =
     \<lparr> seg_start = raw_start segment,
       seg_end = raw_end segment,
       seg_text = trim (raw_text segment),
       confidence = (case raw_avg_logprob segment of
                       None \<Rightarrow> None
                     | Some l \<Rightarrow> if l = 0 then None else Some (fl (exp l))) \<rparr>"

text \<open>
  \<^verbatim>\<open>transcribeAudio\<close>. The argument \<open>api\<close> is what writing the temporary file and the call
  of the service give: a thrown value or the transcription. The temporary file
  \<^verbatim>\<open>/tmp/audio_<now>.wav\<close> is written and unlinked inside this one call, on the success
  path and in the inner \<^verbatim>\<open>catch\<close>, so it is not part of the state between two stages. The
  outer \<^verbatim>\<open>catch\<close> wraps every failure in a new \<^verbatim>\<open>Error\<close>.
\<close>

definition transcribeAudio ::
  "string option \<Rightarrow> thrown + RawTranscription \<Rightarrow> thrown + TranscriptionResponse" where
  "transcribeAudio language api =
     (case api of
        Inl error \<Rightarrow> Inl (Error (''Transcription failed: '' @ errorMessage error))
      | Inr transcription \<Rightarrow>
          let segments = or_array (map_option (map convertSegment) (rt_segments transcription)) []
          in Inr \<lparr> tr_text = rt_text transcription,
                   tr_language = or_string (rt_language transcription) (or_string language ''en''),
                   tr_duration = or_number (rt_duration transcription) 0,
                   tr_segments = segments,
                   tr_confidence = calculateOverallConfidence segments \<rparr>)"


section \<open>The summarisation client (services/openai.ts)\<close>

text \<open>\<^verbatim>\<open>KeyPoint\<close> and \<^verbatim>\<open>Chapter\<close>, fields prefixed \<open>kp_\<close> and \<open>ch_\<close>.\<close>

record KeyPoint =
  kp_title :: string
  kp_description :: string
  kp_timestamp :: "real option"
  kp_importance :: string

record Chapter =
  ch_title :: string
  ch_start :: real
  ch_end :: real
  ch_summary :: string
  ch_keyPoints :: "string list"

text \<open>
  The object \<^verbatim>\<open>JSON.parse\<close> returns, typed \<^verbatim>\<open>any\<close> in the source: every property may
  be missing. Fields prefixed \<open>rk_\<close> (a key point), \<open>rc_\<close> (a chapter) and \<open>p_\<close>
  (the response).
\<close>

record RawKeyPoint =
  rk_title :: "string option"
  rk_description :: "string option"
  rk_timestamp :: "real option"
  rk_importance :: "string option"

record RawChapter =
  rc_title :: "string option"
  rc_start :: "real option"
  rc_end :: "real option"
  rc_summary :: "string option"
  rc_keyPoints :: "string list option"

record ParsedResponse =
  p_overview :: "string option"
  p_keyTakeaways :: "string list option"
  p_keyPoints :: "RawKeyPoint list option"
  p_actionItems :: "string list option"
  p_quotes :: "string list option"
  p_chapters :: "RawChapter list option"
  p_tags :: "string list option"

text \<open>
  A choice of the chat completion: \<open>content\<close> is \<^verbatim>\<open>message?.content\<close>, \<open>json\<close> is what
  \<^verbatim>\<open>JSON.parse(content)\<close> gives (\<^term>\<open>None\<close> when it throws), \<open>finish_reason\<close> as
  named.
\<close>

record Choice =
  content :: "string option"
  json :: "ParsedResponse option"
  finish_reason :: string

record Completion =
  choices :: "Choice list"

text \<open>\<^verbatim>\<open>SummarizationResponse\<close> (fields prefixed \<open>sr_\<close>) and \<^verbatim>\<open>SummarizationRequest\<close>.\<close>

record SummarizationResponse =
  sr_overview :: string
  sr_keyTakeaways :: "string list"
  sr_keyPoints :: "KeyPoint list"
  sr_actionItems :: "string list"
  sr_quotes :: "string list"
  sr_chapters :: "Chapter list option"
  sr_tags :: "string list"
  sr_confidence :: real

record SummarizationRequest =
  transcript :: string
  detailLevel :: DetailLevel
  sreq_options :: UploadOptions
  metadata_duration :: "real option"
  metadata_language :: "string option"

definition processKeyPoints :: "RawKeyPoint list \<Rightarrow> KeyPoint list" where
  "processKeyPoints keyPoints =
     map (\<lambda>point.
            \<lparr> kp_title = or_string (rk_title point) '''',
              kp_description = or_string (rk_description point) '''',
              kp_timestamp = (case rk_timestamp point of
                                None \<Rightarrow> None
                              | Some t \<Rightarrow> if t = 0 then None else Some t),
              kp_importance = or_string (rk_importance point) ''medium'' \<rparr>)
         keyPoints"

definition processChapters :: "RawChapter list \<Rightarrow> Chapter list" where
  "processChapters chapters =
     map (\<lambda>chapter.
            \<lparr> ch_title = or_string (rc_title chapter) '''',
              ch_start = or_number (rc_start chapter) 0,
              ch_end = or_number (rc_end chapter) 0,
              ch_summary = or_string (rc_summary chapter) '''',
              ch_keyPoints = or_array (rc_keyPoints chapter) [] \<rparr>)
         chapters"

definition calculateSummaryConfidence :: "Choice \<Rightarrow> real" where
  "calculateSummaryConfidence choice =
     (if finish_reason choice = ''stop'' then fl (95 / 100)
      else if finish_reason choice = ''length'' then fl (8 / 10)
      else fl (7 / 10))"

text \<open>
  \<^verbatim>\<open>generateSummary\<close>. The argument \<open>api\<close> is what the chat completion call gives. The
  prompts only feed that call and are not modelled. \<open>generateSummary_body\<close> is the body
  of the \<^verbatim>\<open>try\<close>, \<open>generateSummary\<close> adds the \<^verbatim>\<open>catch\<close> that wraps every failure.
\<close>

definition generateSummary_body ::
  "SummarizationRequest \<Rightarrow> thrown + Completion \<Rightarrow> thrown + SummarizationResponse" where
  "generateSummary_body request api =
     (case api of
        Inl error \<Rightarrow> Inl error
      | Inr completion \<Rightarrow>
          (case choices completion of
             [] \<Rightarrow> Inl (Error ''No response content from OpenAI'')
           | choice # _ \<Rightarrow>
               if \<not> truthy (content choice)
               then Inl (Error ''No response content from OpenAI'')
               else
                 (case json choice of
                    None \<Rightarrow> Inl (Error ''Invalid JSON response from OpenAI'')
                  | Some parsedResponse \<Rightarrow>
                      Inr \<lparr> sr_overview = or_string (p_overview parsedResponse) '''',
                            sr_keyTakeaways = or_array (p_keyTakeaways parsedResponse) [],
                            sr_keyPoints =
                              processKeyPoints (or_array (p_keyPoints parsedResponse) []),
                            sr_actionItems = or_array (p_actionItems parsedResponse) [],
                            sr_quotes = or_array (p_quotes parsedResponse) [],
                            sr_chapters =
                              (if timestamps (sreq_options request)
                               then Some (processChapters
                                            (or_array (p_chapters parsedResponse) []))
                               else None),
                            sr_tags = or_array (p_tags parsedResponse) [],
                            sr_confidence = calculateSummaryConfidence choice \<rparr>)))"

definition generateSummary ::
  "SummarizationRequest \<Rightarrow> thrown + Completion \<Rightarrow> thrown + SummarizationResponse" where
  "generateSummary request api =
     (case generateSummary_body request api of
        Inl error \<Rightarrow> Inl (Error (''Summarization failed: '' @ errorMessage error))
      | Inr response \<Rightarrow> Inr response)"


section \<open>The job registry and the pipeline (services/processor.ts)\<close>

subsection \<open>Records\<close>

text \<open>\<^verbatim>\<open>User\<close>: only \<^verbatim>\<open>user.id\<close> is read by the pipeline.\<close>

record User =
  user_id :: string
  email :: string

text \<open>\<^verbatim>\<open>ProcessingJob\<close>; \<^verbatim>\<open>id\<close> is \<open>job_id\<close>.\<close>

record ProcessingJob =
  job_id :: string
  userId :: string
  type :: UploadType
  status :: JobStatus
  progress :: nat
  originalFile :: "string option"
  url :: "string option"
  options :: UploadOptions
  error :: "string option"
  createdAt :: int
  updatedAt :: int
  completedAt :: "int option"

text \<open>
  \<^verbatim>\<open>Partial<ProcessingJob>\<close> as the callers of \<^verbatim>\<open>updateJob\<close> use it: an object literal
  that names some of \<^verbatim>\<open>status\<close>, \<^verbatim>\<open>progress\<close>, \<^verbatim>\<open>error\<close>, \<^verbatim>\<open>completedAt\<close>. A property
  the literal does not name is \<^term>\<open>None\<close> here and is left alone by \<^verbatim>\<open>Object.assign\<close>.
\<close>

record JobUpdates =
  upd_status :: "JobStatus option"
  upd_progress :: "nat option"
  upd_error :: "string option"
  upd_completedAt :: "int option"

definition no_updates :: JobUpdates where
  "no_updates = \<lparr> upd_status = None, upd_progress = None, upd_error = None,
                   upd_completedAt = None \<rparr>"

text \<open>\<^verbatim>\<open>Object.assign(job, updates, { updatedAt: new Date() })\<close>.\<close>

definition Object_assign :: "ProcessingJob \<Rightarrow> JobUpdates \<Rightarrow> int \<Rightarrow> ProcessingJob" where
  "Object_assign job updates now =
     job \<lparr> status := (case upd_status updates of None \<Rightarrow> status job | Some v \<Rightarrow> v),
           progress := (case upd_progress updates of None \<Rightarrow> progress job | Some v \<Rightarrow> v),
           error := (case upd_error updates of None \<Rightarrow> error job | Some v \<Rightarrow> Some v),
           completedAt := (case upd_completedAt updates of
                             None \<Rightarrow> completedAt job
                           | Some v \<Rightarrow> Some v),
           updatedAt := now \<rparr>"

text \<open>\<^verbatim>\<open>AudioMetadata\<close>: the three properties \<^verbatim>\<open>getAudioMetadata\<close> sets.\<close>

record AudioMetadata =
  format :: string
  duration :: real
  size :: nat

text \<open>\<^verbatim>\<open>ProcessingOptions\<close>: the two properties \<^verbatim>\<open>processAudio\<close> reads, default false.\<close>

record ProcessingOptions =
  convertToWav :: bool
  normalizeAudio :: bool

text \<open>\<^verbatim>\<open>Summary\<close>, fields prefixed \<open>sum_\<close>; the properties step 6 sets.\<close>

record Summary =
  sum_id :: string
  sum_userId :: string
  sum_jobId :: string
  sum_title :: string
  sum_originalUrl :: "string option"
  sum_originalFileName :: "string option"
  sum_duration :: real
  sum_language :: string
  sum_detailLevel :: DetailLevel
  sum_overview :: string
  sum_keyTakeaways :: "string list"
  sum_keyPoints :: "KeyPoint list"
  sum_actionItems :: "string list"
  sum_quotes :: "string list"
  sum_transcript :: string
  sum_timestamps :: "Timestamp list"
  sum_chapters :: "Chapter list option"
  sum_processingTime :: int
  sum_wordCount :: nat
  sum_confidence :: real
  sum_tags :: "string list"
  sum_createdAt :: int
  sum_updatedAt :: int


subsection \<open>Paths and strings of the Node library\<close>

text \<open>
  \<^verbatim>\<open>config.uploadDir\<close> (default \<^verbatim>\<open>path.join(process.cwd(), 'uploads')\<close>, or the environment's
  \<^verbatim>\<open>UPLOAD_DIR\<close>) and \<^verbatim>\<open>path.join\<close> of a directory and a file name.
\<close>

definition uploadDir :: string where
  "uploadDir = ''uploads''"

definition path_join :: "string \<Rightarrow> string \<Rightarrow> string" where
  "path_join dir name = dir @ ''/'' @ name"

text \<open>
  \<^verbatim>\<open>path.extname\<close> (POSIX): from the last dot of the last path segment to the end; empty
  when that segment has no dot, starts with its only dot, or is \<^verbatim>\<open>..\<close>.
\<close>

definition path_basename :: "string \<Rightarrow> string" where
  "path_basename p =
     rev (takeWhile (\<lambda>c. c \<noteq> CHR ''/'') (dropWhile (\<lambda>c. c = CHR ''/'') (rev p)))"

definition path_extname :: "string \<Rightarrow> string" where
  "path_extname p =
     (let b = path_basename p;
          e = rev (takeWhile (\<lambda>c. c \<noteq> CHR ''.'') (rev b))
      in if CHR ''.'' \<notin> set b \<or> length b = length e + 1 \<or> b = ''..'' then []
         else CHR ''.'' # e)"

text \<open>\<^verbatim>\<open>s.replace(pat, rep)\<close> with a string pattern: the first occurrence only.\<close>

fun replace_first :: "string \<Rightarrow> string \<Rightarrow> string \<Rightarrow> string" where
  "replace_first pat rep [] = (if pat = [] then rep else [])"
| "replace_first pat rep (c # cs) =
     (if take (length pat) (c # cs) = pat then rep @ drop (length pat) (c # cs)
      else c # replace_first pat rep cs)"

text \<open>\<^verbatim>\<open>text.split(/\s+/).length\<close>: one more than the number of runs of white space.\<close>

fun space_runs :: "bool \<Rightarrow> string \<Rightarrow> nat" where
  "space_runs inside [] = 0"
| "space_runs inside (c # cs) =
     (if is_space c then (if inside then 0 else 1) + space_runs True cs
      else space_runs False cs)"

definition split_spaces_length :: "string \<Rightarrow> nat" where
  "split_spaces_length s = 1 + space_runs False s"


subsection \<open>The stages\<close>

text \<open>\<^verbatim>\<open>downloadAudioFromUrl\<close>: the placeholder throws, whatever the URL.\<close>

definition downloadAudioFromUrl :: "string \<Rightarrow> string \<Rightarrow> thrown + string" where
  "downloadAudioFromUrl u jobId = Inl (Error ''URL download not implemented yet'')"

text \<open>
  What running the probe command and \<^verbatim>\<open>fs.statSync\<close> give: one of them throws, or the
  groups of the \<^verbatim>\<open>Duration: hh:mm:ss.cc\<close> match in the tool's output (none when there is
  no match) and the file size.
\<close>

datatype probe = ProbeThrows | ProbeOutput "(nat \<times> nat \<times> real) option" nat

definition toLowerCase :: "string \<Rightarrow> string" where
  "toLowerCase s =
     map (\<lambda>c. let n = (of_char c :: nat) in if 65 \<le> n \<and> n \<le> 90 then char_of (n + 32) else c) s"

definition getAudioMetadata :: "string \<Rightarrow> probe \<Rightarrow> AudioMetadata option" where
  "getAudioMetadata filePath result =
     (case result of
        ProbeThrows \<Rightarrow> None
      | ProbeOutput durationMatch stat_size \<Rightarrow>
          let ext = toLowerCase (path_extname filePath);
              duration = (case durationMatch of
                            None \<Rightarrow> 0
                          | Some (hours, minutes, seconds) \<Rightarrow>
                              real hours * 3600 + real minutes * 60 + seconds)
          in Some \<lparr> format = drop 1 ext, duration = duration, size = stat_size \<rparr>)"

text \<open>
  \<^verbatim>\<open>processAudio\<close>. \<open>exec_ok\<close> says whether the normalisation command ran without an
  error. The command string only feeds that call and the log. The function returns the
  path it hands back and the files on disk: a run that succeeds has written the output
  file; a run that fails is taken to leave nothing behind.
\<close>

definition processAudio ::
  "string \<Rightarrow> ProcessingOptions \<Rightarrow> bool \<Rightarrow> string set \<Rightarrow> string \<times> string set" where
  "processAudio inputPath popts exec_ok fs =
     (if \<not> convertToWav popts \<and> \<not> normalizeAudio popts then (inputPath, fs)
      else
        let outputPath = replace_first (path_extname inputPath) ''_processed.wav'' inputPath
        in if exec_ok then (outputPath, insert outputPath fs)
           else (inputPath, fs))"

text \<open>\<^verbatim>\<open>fs.readFileSync\<close> throws when the file is not there.\<close>

definition readFileSync :: "string \<Rightarrow> string set \<Rightarrow> thrown + unit" where
  "readFileSync p fs =
     (if p \<in> fs then Inr ()
      else Inl (Error (''ENOENT: no such file or directory, open '' @ [CHR 0x27] @ p
                         @ [CHR 0x27])))"

definition generateTitle :: "string \<Rightarrow> string" where
  "generateTitle overview =
     (let firstSentence = takeWhile (\<lambda>c. c \<noteq> CHR ''.'') overview
      in if length firstSentence > 60 then take 57 firstSentence @ ''...''
         else firstSentence @ (if CHR ''.'' \<in> set overview then [] else ''...''))"

text \<open>
  Step 6 of \<^verbatim>\<open>processJob\<close>: the \<^verbatim>\<open>finalSummary\<close> object. \<open>summaryId\<close> is what
  \<^verbatim>\<open>generateSummaryId()\<close> returns.
\<close>

definition finalSummary ::
  "int \<Rightarrow> string \<Rightarrow> ProcessingJob \<Rightarrow> TranscriptionResponse \<Rightarrow> SummarizationResponse \<Rightarrow> Summary"
  where
  "finalSummary now summaryId job transcription summary =
     \<lparr> sum_id = summaryId,
       sum_userId = userId job,
       sum_jobId = job_id job,
       sum_title = generateTitle (sr_overview summary),
       sum_originalUrl = url job,
       sum_originalFileName = originalFile job,
       sum_duration = tr_duration transcription,
       sum_language = tr_language transcription,
       sum_detailLevel = detail (options job),
       sum_overview = sr_overview summary,
       sum_keyTakeaways = sr_keyTakeaways summary,
       sum_keyPoints = sr_keyPoints summary,
       sum_actionItems = sr_actionItems summary,
       sum_quotes = sr_quotes summary,
       sum_transcript = tr_text transcription,
       sum_timestamps = tr_segments transcription,
       sum_chapters = sr_chapters summary,
       sum_processingTime = now - createdAt job,
       sum_wordCount = split_spaces_length (tr_text transcription),
       sum_confidence = min (tr_confidence transcription) (sr_confidence summary),
       sum_tags = sr_tags summary,
       sum_createdAt = now,
       sum_updatedAt = now \<rparr>"


subsection \<open>The service's state and the suspended pipeline\<close>

text \<open>
  The server is one Node process. A call of \<^verbatim>\<open>processJob\<close> runs until its next
  \<^verbatim>\<open>await\<close> and is suspended there; while it waits, other requests (\<^verbatim>\<open>createJob\<close>,
  \<^verbatim>\<open>cancelJob\<close>) run to their end against the same registry. \<open>pending\<close> is the
  suspended call: which \<^verbatim>\<open>await\<close> it stands at and its local variables, in the order
  \<^verbatim>\<open>jobId\<close>, \<^verbatim>\<open>job\<close>, \<^verbatim>\<open>audioFilePath\<close>, \<^verbatim>\<open>shouldCleanup\<close>, \<^verbatim>\<open>processedAudioPath\<close>,
  then \<^verbatim>\<open>transcription\<close> or \<^verbatim>\<open>finalSummary\<close>. \<^verbatim>\<open>job\<close> is the object read at the start of
  the call; of it the pipeline reads only properties no update writes.
\<close>

datatype pending =
    AwaitDownload string ProcessingJob
  | AwaitMetadata string ProcessingJob string bool
  | AwaitProcessAudio string ProcessingJob string bool
  | AwaitTranscribe string ProcessingJob string bool string
  | AwaitSummary string ProcessingJob string bool string TranscriptionResponse
  | AwaitStore string ProcessingJob string bool string Summary

fun pending_jobId :: "pending \<Rightarrow> string" where
  "pending_jobId (AwaitDownload jobId job) = jobId"
| "pending_jobId (AwaitMetadata jobId job audioFilePath shouldCleanup) = jobId"
| "pending_jobId (AwaitProcessAudio jobId job audioFilePath shouldCleanup) = jobId"
| "pending_jobId (AwaitTranscribe jobId job audioFilePath shouldCleanup processedAudioPath) = jobId"
| "pending_jobId (AwaitSummary jobId job audioFilePath shouldCleanup processedAudioPath tr) = jobId"
| "pending_jobId (AwaitStore jobId job audioFilePath shouldCleanup processedAudioPath fs) = jobId"

text \<open>
  The fields of \<^verbatim>\<open>ProcessorService\<close> (\<open>jobs\<close>, \<open>jobQueue\<close>, \<open>isProcessing\<close>), the files
  on disk, and the suspended call of \<^verbatim>\<open>processJob\<close> when there is one.
\<close>

record pstate =
  jobs :: "string \<Rightarrow> ProcessingJob option"
  jobQueue :: "string list"
  isProcessing :: bool
  files :: "string set"
  worker :: "pending option"

text \<open>
  What the outside world answers to the call the pipeline waits for: the probe, whether
  the normalisation command succeeded, the transcription service, the chat completion, and
  the identifier \<^verbatim>\<open>generateSummaryId()\<close> draws.
\<close>

record external =
  ext_probe :: probe
  ext_exec_ok :: bool
  ext_whisper :: "thrown + RawTranscription"
  ext_chat :: "thrown + Completion"
  ext_summaryId :: string

text \<open>How a stretch of the \<^verbatim>\<open>try\<close> block ends: at the next \<^verbatim>\<open>await\<close>, by a throw, or at its end.\<close>

datatype control = Suspend pending | Throw thrown | Return

text \<open>\<^verbatim>\<open>updateJob\<close>: a job that is not in the map is left alone.\<close>

definition updateJob :: "int \<Rightarrow> string \<Rightarrow> JobUpdates \<Rightarrow> pstate \<Rightarrow> pstate" where
  "updateJob now jobId updates s =
     (case jobs s jobId of
        None \<Rightarrow> s
      | Some job \<Rightarrow> s \<lparr> jobs := (jobs s)(jobId \<mapsto> Object_assign job updates now) \<rparr>)"

text \<open>
  \<^verbatim>\<open>processJob\<close>, the \<^verbatim>\<open>try\<close> block from its start to the first \<^verbatim>\<open>await\<close>: the update to
  \<^verbatim>\<open>processing\<close>, then step 1. A file job runs on into \<^verbatim>\<open>getAudioMetadata\<close>, which
  suspends at its command; a URL job suspends at \<^verbatim>\<open>downloadAudioFromUrl\<close>.
\<close>

definition processJob_begin :: "int \<Rightarrow> string \<Rightarrow> ProcessingJob \<Rightarrow> pstate \<Rightarrow> pstate \<times> control" where
  "processJob_begin now jobId job s =
     (let s = updateJob now jobId
                (no_updates \<lparr> upd_status := Some Processing, upd_progress := Some 0 \<rparr>) s
      in if type job = File \<and> truthy (originalFile job) then
           let audioFilePath = path_join uploadDir (the (originalFile job));
               s = updateJob now jobId (no_updates \<lparr> upd_progress := Some 10 \<rparr>) s
           in (s, Suspend (AwaitMetadata jobId job audioFilePath False))
         else if type job = Url \<and> truthy (url job) then
           (s, Suspend (AwaitDownload jobId job))
         else (s, Throw (Error ''No valid audio source provided'')))"

text \<open>
  The \<^verbatim>\<open>try\<close> block from the \<^verbatim>\<open>await\<close> it was suspended at to the next one, given the
  answer \<open>ext\<close> of the outside world to the pending call. \<^verbatim>\<open>storeSummary\<close> only logs.
  \<^verbatim>\<open>fs.unlinkSync\<close> of a file that \<^verbatim>\<open>fs.existsSync\<close> has just found is taken to succeed.
\<close>

fun processJob_resume :: "int \<Rightarrow> external \<Rightarrow> pending \<Rightarrow> pstate \<Rightarrow> pstate \<times> control" where
  "processJob_resume now ext (AwaitDownload jobId job) s =
     (case downloadAudioFromUrl (the (url job)) jobId of
        Inl err \<Rightarrow> (s, Throw err)
      | Inr audioFilePath \<Rightarrow>
          let s = updateJob now jobId (no_updates \<lparr> upd_progress := Some 20 \<rparr>) s
          in (s, Suspend (AwaitMetadata jobId job audioFilePath True)))"
| "processJob_resume now ext (AwaitMetadata jobId job audioFilePath shouldCleanup) s =
     (case getAudioMetadata audioFilePath (ext_probe ext) of
        None \<Rightarrow> (s, Throw (Error ''Unable to read audio metadata''))
      | Some metadata \<Rightarrow>
          let s = updateJob now jobId (no_updates \<lparr> upd_progress := Some 30 \<rparr>) s
          in (s, Suspend (AwaitProcessAudio jobId job audioFilePath shouldCleanup)))"
| "processJob_resume now ext (AwaitProcessAudio jobId job audioFilePath shouldCleanup) s =
     (let (processedAudioPath, fs) =
            processAudio audioFilePath \<lparr> convertToWav = True, normalizeAudio = True \<rparr>
              (ext_exec_ok ext) (files s);
          s = s \<lparr> files := fs \<rparr>;
          s = updateJob now jobId (no_updates \<lparr> upd_progress := Some 50 \<rparr>) s
      in case readFileSync processedAudioPath (files s) of
           Inl err \<Rightarrow> (s, Throw err)
         | Inr audioBuffer \<Rightarrow>
             (s, Suspend (AwaitTranscribe jobId job audioFilePath shouldCleanup
                            processedAudioPath)))"
| "processJob_resume now ext
     (AwaitTranscribe jobId job audioFilePath shouldCleanup processedAudioPath) s =
     (case transcribeAudio (lang (options job)) (ext_whisper ext) of
        Inl err \<Rightarrow> (s, Throw err)
      | Inr transcription \<Rightarrow>
          let s = updateJob now jobId (no_updates \<lparr> upd_progress := Some 70 \<rparr>) s
          in (s, Suspend (AwaitSummary jobId job audioFilePath shouldCleanup
                            processedAudioPath transcription)))"
| "processJob_resume now ext
     (AwaitSummary jobId job audioFilePath shouldCleanup processedAudioPath transcription) s =
     (case generateSummary
             \<lparr> transcript = tr_text transcription,
               detailLevel = detail (options job),
               sreq_options = options job,
               metadata_duration = Some (tr_duration transcription),
               metadata_language = Some (tr_language transcription) \<rparr>
             (ext_chat ext) of
        Inl err \<Rightarrow> (s, Throw err)
      | Inr summary \<Rightarrow>
          let s = updateJob now jobId (no_updates \<lparr> upd_progress := Some 90 \<rparr>) s
          in (s, Suspend (AwaitStore jobId job audioFilePath shouldCleanup processedAudioPath
                            (finalSummary now (ext_summaryId ext) job transcription summary))))"
| "processJob_resume now ext
     (AwaitStore jobId job audioFilePath shouldCleanup processedAudioPath final) s =
     (let s = (if shouldCleanup \<and> audioFilePath \<in> files s
               then s \<lparr> files := files s - {audioFilePath} \<rparr> else s);
          s = (if processedAudioPath \<noteq> audioFilePath \<and> processedAudioPath \<in> files s
               then s \<lparr> files := files s - {processedAudioPath} \<rparr> else s);
          s = updateJob now jobId
                (no_updates \<lparr> upd_status := Some Completed, upd_progress := Some 100,
                              upd_completedAt := Some now \<rparr>) s
      in (s, Return))"

text \<open>The \<^verbatim>\<open>catch\<close> block of \<^verbatim>\<open>processJob\<close>.\<close>

definition processJob_catch :: "int \<Rightarrow> string \<Rightarrow> thrown \<Rightarrow> pstate \<Rightarrow> pstate" where
  "processJob_catch now jobId err s =
     (let message = errorMessage err
      in updateJob now jobId
           (no_updates \<lparr> upd_status := Some Failed, upd_error := Some message \<rparr>) s)"

text \<open>
  A stretch of the \<^verbatim>\<open>try\<close> block under the \<^verbatim>\<open>catch\<close>: the call is suspended again
  (\<^term>\<open>Some k\<close>), or it has returned, through the \<^verbatim>\<open>catch\<close> block after a throw.
\<close>

definition processJob_settle :: "int \<Rightarrow> string \<Rightarrow> pstate \<times> control \<Rightarrow> pstate \<times> pending option" where
  "processJob_settle now jobId r =
     (case r of
        (s, Suspend k) \<Rightarrow> (s, Some k)
      | (s, Throw err) \<Rightarrow> (processJob_catch now jobId err s, None)
      | (s, Return) \<Rightarrow> (s, None))"

text \<open>\<^verbatim>\<open>processJob\<close> from its call to its first suspension or its return.\<close>

definition processJob :: "int \<Rightarrow> string \<Rightarrow> pstate \<Rightarrow> pstate \<times> pending option" where
  "processJob now jobId s =
     (case jobs s jobId of
        None \<Rightarrow> (s, None)
      | Some job \<Rightarrow> processJob_settle now jobId (processJob_begin now jobId job s))"

text \<open>
  The \<^verbatim>\<open>while\<close> loop of \<^verbatim>\<open>processQueue\<close> with its \<^verbatim>\<open>finally\<close>. The first argument is the
  queue still to drain: \<^verbatim>\<open>shift()\<close> takes its head, an empty identifier is skipped
  (\<^verbatim>\<open>if (jobId)\<close>), and the loop stops where \<^verbatim>\<open>processJob\<close> suspends. No stretch of
  \<^verbatim>\<open>processJob\<close> writes the queue (\<open>processJob_jobQueue\<close> below), so the rest of the
  list is the queue the next iteration reads. \<^verbatim>\<open>processJob\<close> catches whatever its body
  throws, so the \<^verbatim>\<open>catch\<close> of \<^verbatim>\<open>processQueue\<close> is never entered.
\<close>

fun processQueue_loop :: "int \<Rightarrow> string list \<Rightarrow> pstate \<Rightarrow> pstate" where
  "processQueue_loop now [] s = s \<lparr> isProcessing := False, worker := None \<rparr>"
| "processQueue_loop now (jobId # rest) s =
     (let s = s \<lparr> jobQueue := rest \<rparr>
      in if jobId = [] then processQueue_loop now rest s
         else
           (case processJob now jobId s of
              (s, Some k) \<Rightarrow> s \<lparr> worker := Some k \<rparr>
            | (s, None) \<Rightarrow> processQueue_loop now rest s))"

definition processQueue :: "int \<Rightarrow> pstate \<Rightarrow> pstate" where
  "processQueue now s =
     (if isProcessing s \<or> length (jobQueue s) = 0 then s
      else processQueue_loop now (jobQueue s) (s \<lparr> isProcessing := True \<rparr>))"

text \<open>
  \<^verbatim>\<open>createJob\<close>; \<open>jobId\<close> is what \<^verbatim>\<open>generateJobId()\<close> returns. The state is returned;
  the job it hands back is \<open>jobs s jobId\<close>.
\<close>

definition createJob :: "int \<Rightarrow> string \<Rightarrow> User \<Rightarrow> UploadRequest \<Rightarrow> pstate \<Rightarrow> pstate" where
  "createJob now jobId user request s =
     (let job = \<lparr> job_id = jobId,
                  userId = user_id user,
                  type = req_type request,
                  status = Queued,
                  progress = 0,
                  originalFile = req_file request,
                  url = req_url request,
                  options = req_options request,
                  error = None,
                  createdAt = now,
                  updatedAt = now,
                  completedAt = None \<rparr>;
          s = s \<lparr> jobs := (jobs s)(jobId \<mapsto> job), jobQueue := jobQueue s @ [jobId] \<rparr>
      in if \<not> isProcessing s then processQueue now s else s)"

text \<open>
  \<^verbatim>\<open>cancelJob\<close>: \<^verbatim>\<open>indexOf\<close> and \<^verbatim>\<open>splice(queueIndex, 1)\<close> remove the first occurrence.
\<close>

definition cancelJob :: "int \<Rightarrow> string \<Rightarrow> pstate \<Rightarrow> bool \<times> pstate" where
  "cancelJob now jobId s =
     (case jobs s jobId of
        None \<Rightarrow> (False, s)
      | Some job \<Rightarrow>
          if status job = Completed \<or> status job = Failed then (False, s)
          else
            let s = (if status job = Queued
                     then s \<lparr> jobQueue := remove1 jobId (jobQueue s) \<rparr> else s);
                s = updateJob now jobId
                      (no_updates \<lparr> upd_status := Some Failed,
                                    upd_error := Some ''Cancelled by user'' \<rparr>) s
            in (True, s))"

text \<open>
  The pending call of the suspended \<^verbatim>\<open>processJob\<close> answers: the pipeline runs to its next
  \<^verbatim>\<open>await\<close>; when \<^verbatim>\<open>processJob\<close> returns instead, the loop of \<^verbatim>\<open>processQueue\<close> goes on.
  No other request is taken to run between that return and the next turn of the loop.
\<close>

definition resume :: "int \<Rightarrow> external \<Rightarrow> pstate \<Rightarrow> pstate" where
  "resume now ext s =
     (case worker s of
        None \<Rightarrow> s
      | Some k \<Rightarrow>
          (case processJob_settle now (pending_jobId k) (processJob_resume now ext k s) of
             (s, Some k') \<Rightarrow> s \<lparr> worker := Some k' \<rparr>
           | (s, None) \<Rightarrow> processQueue_loop now (jobQueue s) s))"

text \<open>
  What happens to the service, each at a time \<open>now\<close>: a job is submitted, a job is
  cancelled, or the call the pipeline waits for answers. \<^verbatim>\<open>getJob\<close> and
  \<^verbatim>\<open>getQueueStatus\<close> only read, and nothing in the repository calls \<^verbatim>\<open>cleanupOldJobs\<close>.
  Every \<^verbatim>\<open>new Date()\<close> and \<^verbatim>\<open>Date.now()\<close> of one event reads the same \<open>now\<close>.
\<close>

datatype event =
    Submit string User UploadRequest
  | Cancel string
  | Answer external

fun step :: "pstate \<Rightarrow> int \<times> event \<Rightarrow> pstate" where
  "step s (now, Submit jobId user request) = createJob now jobId user request s"
| "step s (now, Cancel jobId) = snd (cancelJob now jobId s)"
| "step s (now, Answer ext) = resume now ext s"

definition run :: "pstate \<Rightarrow> (int \<times> event) list \<Rightarrow> pstate" where
  "run s evs = foldl step s evs"

text \<open>The service at its start, with the files \<open>fs\<close> on disk.\<close>

definition initial :: "string set \<Rightarrow> pstate" where
  "initial fs = \<lparr> jobs = Map.empty, jobQueue = [], isProcessing = False, files = fs,
                 worker = None \<rparr>"


section \<open>Runs of the service and their invariant\<close>

text \<open>
  \<^verbatim>\<open>generateJobId()\<close> builds the identifier from the clock and a random suffix so that it is
  new. An event is \<open>fresh\<close> in a state when a submission's identifier is not yet in the
  registry, and a run is fresh when every event of it is, in the state it meets.
\<close>

definition fresh :: "pstate \<Rightarrow> int \<times> event \<Rightarrow> bool" where
  "fresh s ev =
     (case snd ev of Submit jobId user request \<Rightarrow> jobs s jobId = None | _ \<Rightarrow> True)"

fun fresh_run :: "pstate \<Rightarrow> (int \<times> event) list \<Rightarrow> bool" where
  "fresh_run s [] = True"
| "fresh_run s (ev # evs) = (fresh s ev \<and> fresh_run (step s ev) evs)"

text \<open>The progress the job of a suspended pipeline has, by the \<^verbatim>\<open>await\<close> it stands at.\<close>

fun stage_progress :: "pending \<Rightarrow> nat" where
  "stage_progress (AwaitDownload jobId job) = 0"
| "stage_progress (AwaitMetadata jobId job audioFilePath shouldCleanup) =
     (if shouldCleanup then 20 else 10)"
| "stage_progress (AwaitProcessAudio jobId job audioFilePath shouldCleanup) = 30"
| "stage_progress (AwaitTranscribe jobId job audioFilePath shouldCleanup processedAudioPath) = 50"
| "stage_progress (AwaitSummary jobId job audioFilePath shouldCleanup processedAudioPath tr) = 70"
| "stage_progress (AwaitStore jobId job audioFilePath shouldCleanup processedAudioPath final) = 90"

fun is_download :: "pending \<Rightarrow> bool" where
  "is_download (AwaitDownload jobId job) = True"
| "is_download k = False"

text \<open>
  The invariant of the reachable states. The queue holds each identifier once, and each
  is a job still \<^verbatim>\<open>queued\<close> at progress 0. Every progress is one of the values the
  pipeline writes, and no URL job is \<^verbatim>\<open>completed\<close>. The flag \<^verbatim>\<open>isProcessing\<close> is set exactly
  while a pipeline is suspended, and the job of that pipeline is in the registry, no longer
  \<^verbatim>\<open>queued\<close>, at the progress of its stage, and past the download only if it is a file job.
\<close>

definition queue_ok :: "pstate \<Rightarrow> bool" where
  "queue_ok s =
     (distinct (jobQueue s) \<and>
      (\<forall>jobId \<in> set (jobQueue s).
         \<exists>j. jobs s jobId = Some j \<and> status j = Queued \<and> progress j = 0))"

definition jobs_ok :: "pstate \<Rightarrow> bool" where
  "jobs_ok s =
     (\<forall>jobId j. jobs s jobId = Some j \<longrightarrow>
        progress j \<in> {0, 10, 20, 30, 50, 70, 90, 100} \<and>
        (type j = Url \<longrightarrow> status j \<noteq> Completed))"

definition worker_ok :: "pstate \<Rightarrow> bool" where
  "worker_ok s =
     ((isProcessing s \<longleftrightarrow> worker s \<noteq> None) \<and>
      (\<forall>k. worker s = Some k \<longrightarrow>
         (\<exists>j. jobs s (pending_jobId k) = Some j \<and> status j \<noteq> Queued \<and>
              progress j = stage_progress k \<and> (type j = Url \<longrightarrow> is_download k))))"

definition invariant :: "pstate \<Rightarrow> bool" where
  "invariant s = (queue_ok s \<and> jobs_ok s \<and> worker_ok s)"

text \<open>No job of \<open>s\<close> is gone or has a lower progress in \<open>s'\<close>.\<close>

definition progress_le :: "pstate \<Rightarrow> pstate \<Rightarrow> bool" where
  "progress_le s s' =
     (\<forall>jobId j. jobs s jobId = Some j \<longrightarrow>
        (\<exists>j'. jobs s' jobId = Some j' \<and> progress j \<le> progress j'))"


section \<open>Example inputs\<close>

text \<open>
  One user, a file upload \<^verbatim>\<open>a.mp3\<close> that is on disk, a URL submission, and an outside
  world in which every call succeeds: the probe finds a duration of 1:30, the
  normalisation command runs, the transcription has no segments, and the chat completion
  holds a JSON object with an overview and one chapter.
\<close>

definition example_user :: User where
  "example_user = \<lparr> user_id = ''u1'', email = ''u1@example.org'' \<rparr>"

definition example_options :: UploadOptions where
  "example_options = \<lparr> lang = None, detail = Brief, timestamps = False \<rparr>"

definition example_file_request :: UploadRequest where
  "example_file_request =
     \<lparr> req_type = File, req_file = Some ''a.mp3'', req_url = None,
       req_options = example_options \<rparr>"

definition example_url_request :: UploadRequest where
  "example_url_request =
     \<lparr> req_type = Url, req_file = None, req_url = Some ''http://example.org/a.mp3'',
       req_options = example_options \<rparr>"

definition example_files :: "string set" where
  "example_files = {''uploads/a.mp3''}"

definition example_parsed :: ParsedResponse where
  "example_parsed =
     \<lparr> p_overview = Some ''A talk. About things.'',
       p_keyTakeaways = None,
       p_keyPoints = None,
       p_actionItems = None,
       p_quotes = None,
       p_chapters = Some [\<lparr> rc_title = Some ''Intro'', rc_start = None, rc_end = Some 10,
                            rc_summary = None, rc_keyPoints = None \<rparr>],
       p_tags = None \<rparr>"

definition example_transcription :: RawTranscription where
  "example_transcription =
     \<lparr> rt_text = ''hello world'', rt_language = Some ''en'', rt_duration = Some 90,
       rt_segments = None \<rparr>"

definition example_external :: external where
  "example_external =
     \<lparr> ext_probe = ProbeOutput (Some (0, 1, 30)) 1000,
       ext_exec_ok = True,
       ext_whisper = Inr example_transcription,
       ext_chat = Inr \<lparr> choices = [\<lparr> content = Some ''{}'', json = Some example_parsed,
                                     finish_reason = ''stop'' \<rparr>] \<rparr>,
       ext_summaryId = ''summary_1'' \<rparr>"

text \<open>The same world with the transcription service down, and with a probe that fails.\<close>

definition example_whisper_down :: external where
  "example_whisper_down =
     example_external \<lparr> ext_whisper := Inl (Error ''service unavailable'') \<rparr>"

definition example_probe_fails :: external where
  "example_probe_fails = example_external \<lparr> ext_probe := ProbeThrows \<rparr>"

text \<open>The submission of the file job \<^verbatim>\<open>j1\<close> at time 1, and of a URL job.\<close>

definition example_submit :: "(int \<times> event) list" where
  "example_submit = [(1, Submit ''j1'' example_user example_file_request)]"

definition example_url_submit :: "(int \<times> event) list" where
  "example_url_submit = [(1, Submit ''j1'' example_user example_url_request)]"

text \<open>The file job run until the pipeline waits for the persistence of the summary.\<close>

definition example_to_summary :: "(int \<times> event) list" where
  "example_to_summary =
     example_submit @ [(2, Answer example_external), (3, Answer example_external),
                       (4, Answer example_external), (5, Answer example_external)]"

text \<open>
  Two file jobs; the pipeline of \<^verbatim>\<open>j1\<close> waits for the transcription and \<^verbatim>\<open>j2\<close> is queued.
\<close>

definition example_two_submits :: "(int \<times> event) list" where
  "example_two_submits =
     [(1, Submit ''j1'' example_user example_file_request),
      (2, Submit ''j2'' example_user (example_file_request \<lparr> req_file := Some ''b.mp3'' \<rparr>)),
      (3, Answer example_external),
      (4, Answer example_external)]"

definition example_two_jobs :: pstate where
  "example_two_jobs =
     run (initial (insert ''uploads/b.mp3'' example_files)) example_two_submits"

text \<open>The record \<^verbatim>\<open>createJob\<close> builds for the URL submission, and a registry that holds one job.\<close>

definition example_url_job :: ProcessingJob where
  "example_url_job =
     \<lparr> job_id = ''j1'', userId = ''u1'', type = Url, status = Queued, progress = 0,
       originalFile = None, url = Some ''http://example.org/a.mp3'',
       options = example_options, error = None, createdAt = 1, updatedAt = 1,
       completedAt = None \<rparr>"

definition example_registry :: "ProcessingJob \<Rightarrow> pstate" where
  "example_registry job = (initial example_files) \<lparr> jobs := [''j1'' \<mapsto> job] \<rparr>"

text \<open>The summary a pipeline has assembled when it waits for its persistence.\<close>

definition pending_summary :: "pending \<Rightarrow> Summary option" where
  "pending_summary k =
     (case k of
        AwaitStore jobId job audioFilePath shouldCleanup processedAudioPath final \<Rightarrow> Some final
      | _ \<Rightarrow> None)"

lemmas example_defs =
  example_user_def example_options_def example_file_request_def example_url_request_def
  example_files_def example_parsed_def example_transcription_def example_external_def
  example_whisper_down_def example_probe_fails_def example_submit_def example_url_submit_def
  example_to_summary_def example_two_submits_def example_two_jobs_def example_url_job_def
  example_registry_def
  pending_summary_def

text \<open>The definitions a concrete run is evaluated with.\<close>

lemmas model_defs =
  run_def initial_def createJob_def cancelJob_def resume_def processQueue_def
  processJob_def processJob_settle_def processJob_begin_def processJob_catch_def updateJob_def
  Object_assign_def no_updates_def truthy_def path_join_def uploadDir_def
  getAudioMetadata_def processAudio_def readFileSync_def downloadAudioFromUrl_def
  path_extname_def path_basename_def transcribeAudio_def generateSummary_def
  generateSummary_body_def errorMessage_def or_string_def or_number_def or_array_def
  fresh_def Let_def


section \<open>Properties of the time estimate\<close>

text \<open>
  C5. \<^verbatim>\<open>estimateProcessingTime\<close> is the base of 60 seconds, times 0.7 for \<^verbatim>\<open>brief\<close> and
  1.5 for \<^verbatim>\<open>deep\<close> (unchanged for \<^verbatim>\<open>standard\<close>), times 1.2 more when timestamps are
  requested, plus 30 for a URL source, rounded to an integer. For (standard, no timestamps,
  file) it is 60 and for (deep, timestamps, url) it is 138.
\<close>

theorem estimateProcessingTime_formula:
  "estimateProcessingTime request =
     Math_round (60 * (case detail (req_options request) of
                         Brief \<Rightarrow> 7 / 10 | Standard \<Rightarrow> 1 | Deep \<Rightarrow> 3 / 2)
                    * (if timestamps (req_options request) then 6 / 5 else 1)
                 + (if req_type request = Url then 30 else 0))
   \<and> estimateProcessingTime
         \<lparr> req_type = File, req_file = f, req_url = u,
           req_options = \<lparr> lang = l, detail = Standard, timestamps = False \<rparr> \<rparr> = 60
   \<and> estimateProcessingTime
         \<lparr> req_type = Url, req_file = f, req_url = u,
           req_options = \<lparr> lang = l, detail = Deep, timestamps = True \<rparr> \<rparr> = 138"
  by (simp add: estimateProcessingTime_def Math_round_def Let_def split: DetailLevel.splits)


section \<open>Properties of the transcription confidence\<close>

subsection \<open>The rounding to a double\<close>























subsection \<open>The overall confidence\<close>













section \<open>Properties of the summarisation client\<close>


lemma generateSummary_chapters:
  "generateSummary request api = Inr response \<Longrightarrow>
     sr_chapters response
       = (if timestamps (sreq_options request)
          then Some (processChapters
                       (or_array (p_chapters (the (json (hd (choices (projr api)))))) []))
          else None)"
  by (auto simp: generateSummary_def generateSummary_body_def
           split: sum.splits list.splits if_splits option.splits)


text \<open>
  C6 (as amended). When the options have \<^verbatim>\<open>timestamps = false\<close>, the \<^verbatim>\<open>chapters\<close> property
  of the summarisation response and of the assembled \<^verbatim>\<open>Summary\<close> is absent
  (\<^verbatim>\<open>undefined\<close>), whatever the detail level and whatever chapters the service returned:
  \<^verbatim>\<open>generateSummary\<close> sets it to \<^verbatim>\<open>undefined\<close> and step 6 copies it.
\<close>


theorem chapters_absent_without_timestamps:
  "(\<not> timestamps (sreq_options request) \<and> generateSummary request api = Inr response \<longrightarrow>
      sr_chapters response = None \<and>
      sum_chapters (finalSummary now summaryId job transcription response) = None)
   \<and> (\<not> timestamps (options job) \<and>
      processJob_resume now ext
        (AwaitSummary jobId job audioFilePath shouldCleanup processedAudioPath transcription) s
        = (s1, Suspend k) \<longrightarrow>
      (\<exists>final. k = AwaitStore jobId job audioFilePath shouldCleanup processedAudioPath final \<and>
               sum_chapters final = None))"
  by (auto simp: generateSummary_chapters finalSummary_def Let_def split: sum.splits)


text \<open>
  The claim as stated asks for an empty list. In the example run the service returns one
  chapter, the options have \<^verbatim>\<open>timestamps = false\<close>, and the summary the pipeline has
  assembled has no \<^verbatim>\<open>chapters\<close> property at all, which is not the empty list.
\<close>


theorem chapters_empty_counterexample:
  "p_chapters example_parsed \<noteq> None
   \<and> map_option sum_chapters
        (Option.bind (worker (run (initial example_files) example_to_summary)) pending_summary)
       = Some None
   \<and> map_option sum_chapters
        (Option.bind (worker (run (initial example_files) example_to_summary)) pending_summary)
       \<noteq> Some (Some [])"
  by (simp add: model_defs example_defs finalSummary_def)


text \<open>The amended statement at the example request.\<close>


theorem chapters_absent_without_timestamps_witness:
  "\<not> timestamps example_options
   \<and> (\<exists>response.
         generateSummary
           \<lparr> transcript = ''hello world'', detailLevel = Brief, sreq_options = example_options,
             metadata_duration = Some 90, metadata_language = Some ''en'' \<rparr>
           (ext_chat example_external) = Inr response
         \<and> sr_chapters response = None
         \<and> sum_chapters (finalSummary 6 ''summary_1'' example_url_job
                           \<lparr> tr_text = ''hello world'', tr_language = ''en'', tr_duration = 90,
                             tr_segments = [], tr_confidence = 8 / 10 \<rparr> response) = None)"
proof -
  let ?req = "\<lparr> transcript = ''hello world'', detailLevel = Brief, sreq_options = example_options,
          metadata_duration = Some 90, metadata_language = Some ''en'' \<rparr>"
  let ?r = "\<lparr> sr_overview = ''A talk. About things.'', sr_keyTakeaways = [], sr_keyPoints = [],
             sr_actionItems = [], sr_quotes = [], sr_chapters = None, sr_tags = [],
             sr_confidence = fl (95 / 100) \<rparr>"
  have r: "generateSummary ?req (ext_chat example_external) = Inr ?r"
    by (simp add: model_defs example_defs processKeyPoints_def calculateSummaryConfidence_def)
  have t: "\<not> timestamps (sreq_options ?req)"
    by (simp add: example_defs)
  from chapters_absent_without_timestamps [where request = ?req
      and api = "ext_chat example_external" and response = ?r] r t
  show ?thesis by (auto simp: example_defs)
qed


section \<open>Properties of the normalisation stage\<close>

text \<open>
  C8. When the normalisation command fails, \<^verbatim>\<open>processAudio\<close> hands back the input path and
  does not throw; when it succeeds (and a conversion was asked for) it hands back the path
  of the converted file, which is then on disk. In the pipeline a failed normalisation of a
  file that is on disk moves the job on to the transcription at progress 50, on the
  original file, with its status untouched.
\<close>


theorem processAudio_fallback:
  "processAudio inputPath popts False fs = (inputPath, fs)
   \<and> (convertToWav popts \<or> normalizeAudio popts \<longrightarrow>
        processAudio inputPath popts True fs
          = (replace_first (path_extname inputPath) ''_processed.wav'' inputPath,
             insert (replace_first (path_extname inputPath) ''_processed.wav'' inputPath) fs))
   \<and> (jobs s jobId = Some j \<and> audioFilePath \<in> files s \<and> \<not> ext_exec_ok ext \<longrightarrow>
        processJob_resume now ext (AwaitProcessAudio jobId job audioFilePath shouldCleanup) s
          = (updateJob now jobId (no_updates \<lparr> upd_progress := Some 50 \<rparr>) s,
             Suspend (AwaitTranscribe jobId job audioFilePath shouldCleanup audioFilePath))
        \<and> jobs (updateJob now jobId (no_updates \<lparr> upd_progress := Some 50 \<rparr>) s) jobId
            = Some (j \<lparr> progress := 50, updatedAt := now \<rparr>))"
  by (auto simp: processAudio_def Let_def readFileSync_def updateJob_def Object_assign_def
        no_updates_def)

theorem processAudio_fallback_witness:
  "processAudio ''uploads/a.mp3'' \<lparr> convertToWav = True, normalizeAudio = True \<rparr> False
     example_files = (''uploads/a.mp3'', example_files)
   \<and> processAudio ''uploads/a.mp3'' \<lparr> convertToWav = True, normalizeAudio = True \<rparr> True
       example_files = (''uploads/a_processed.wav'', insert ''uploads/a_processed.wav'' example_files)
   \<and> map_option (\<lambda>j. (status j, progress j, error j))
        (jobs (run (initial example_files)
                 (example_submit @ [(2, Answer example_external),
                                    (3, Answer (example_external \<lparr> ext_exec_ok := False \<rparr>))]))
           ''j1'')
       = Some (Processing, 50, None)"
proof -
  let ?s = "run (initial example_files) (example_submit @ [(2, Answer example_external)])"
  note a = processAudio_fallback [where inputPath = "''uploads/a.mp3''"
      and popts = "\<lparr> convertToWav = True, normalizeAudio = True \<rparr>" and fs = example_files
      and s = ?s and jobId = "''j1''" and j = "the (jobs ?s ''j1'')"
      and audioFilePath = "''uploads/a.mp3''"
      and ext = "example_external \<lparr> ext_exec_ok := False \<rparr>" and now = 3]
  from a show ?thesis
    by (simp add: model_defs example_defs)
qed


section \<open>The registry under the pipeline\<close>


lemma updateJob_other [simp]:
  "jobQueue (updateJob now jobId u s) = jobQueue s"
  "isProcessing (updateJob now jobId u s) = isProcessing s"
  "files (updateJob now jobId u s) = files s"
  "worker (updateJob now jobId u s) = worker s"
  by (simp_all add: updateJob_def split: option.splits)

lemma updateJob_jobs:
  "jobs (updateJob now jobId u s) jobId' =
     (if jobId' = jobId then map_option (\<lambda>j. Object_assign j u now) (jobs s jobId)
      else jobs s jobId')"
  by (simp add: updateJob_def split: option.splits)

lemma Object_assign_simps [simp]:
  "type (Object_assign j u now) = type j"
  "job_id (Object_assign j u now) = job_id j"
  "progress (Object_assign j u now) = (case upd_progress u of None \<Rightarrow> progress j | Some v \<Rightarrow> v)"
  "status (Object_assign j u now) = (case upd_status u of None \<Rightarrow> status j | Some v \<Rightarrow> v)"
  "error (Object_assign j u now) = (case upd_error u of None \<Rightarrow> error j | Some v \<Rightarrow> Some v)"
  by (simp_all add: Object_assign_def)

lemma no_updates_simps [simp]:
  "upd_status no_updates = None" "upd_progress no_updates = None"
  "upd_error no_updates = None" "upd_completedAt no_updates = None"
  by (simp_all add: no_updates_def)

lemma processJob_resume_frame:
  "processJob_resume now ext k s = (s1, c) \<Longrightarrow>
     jobQueue s1 = jobQueue s \<and> isProcessing s1 = isProcessing s \<and> worker s1 = worker s \<and>
     (\<forall>jobId. jobId \<noteq> pending_jobId k \<longrightarrow> jobs s1 jobId = jobs s jobId)"
  by (cases k)
     (auto simp: updateJob_jobs Let_def downloadAudioFromUrl_def
           split: sum.splits option.splits prod.splits if_splits)

lemma processJob_resume_job:
  "processJob_resume now ext k s = (s1, c) \<Longrightarrow> jobs s (pending_jobId k) = Some j \<Longrightarrow>
     \<exists>j1. jobs s1 (pending_jobId k) = Some j1 \<and> type j1 = type j \<and>
          (case c of
             Suspend k' \<Rightarrow> pending_jobId k' = pending_jobId k \<and> status j1 = status j \<and>
                           progress j1 = stage_progress k' \<and> stage_progress k \<le> stage_progress k' \<and>
                           \<not> is_download k' \<and> \<not> is_download k
           | Throw err \<Rightarrow> status j1 = status j \<and> (progress j1 = progress j \<or> (progress j1 = 50 \<and> stage_progress k = 30))
           | Return \<Rightarrow> status j1 = Completed \<and> progress j1 = 100 \<and> \<not> is_download k)"
  by (cases k)
     (auto simp: updateJob_jobs Let_def downloadAudioFromUrl_def
           split: sum.splits option.splits prod.splits if_splits)


lemma processJob_catch_other [simp]:
  "jobQueue (processJob_catch now jobId err s) = jobQueue s"
  "isProcessing (processJob_catch now jobId err s) = isProcessing s"
  "files (processJob_catch now jobId err s) = files s"
  "worker (processJob_catch now jobId err s) = worker s"
  by (simp_all add: processJob_catch_def)

lemma processJob_catch_jobs:
  "jobs (processJob_catch now jobId err s) jobId' =
     (if jobId' = jobId
      then map_option (\<lambda>j. j \<lparr> status := Failed, error := Some (errorMessage err),
                              updatedAt := now \<rparr>) (jobs s jobId)
      else jobs s jobId')"
  by (simp add: processJob_catch_def updateJob_jobs Object_assign_def map_option_case
           split: option.splits)

lemma processJob_begin_frame:
  "processJob_begin now jobId job s = (s1, c) \<Longrightarrow>
     jobQueue s1 = jobQueue s \<and> isProcessing s1 = isProcessing s \<and> worker s1 = worker s \<and>
     files s1 = files s \<and>
     (\<forall>jobId'. jobId' \<noteq> jobId \<longrightarrow> jobs s1 jobId' = jobs s jobId')"
  by (auto simp: processJob_begin_def updateJob_jobs Let_def split: if_splits)

lemma processJob_begin_job:
  "processJob_begin now jobId job s = (s1, c) \<Longrightarrow> jobs s jobId = Some job \<Longrightarrow>
     \<exists>j1. jobs s1 jobId = Some j1 \<and> type j1 = type job \<and> status j1 = Processing \<and>
          (case c of
             Suspend k \<Rightarrow> pending_jobId k = jobId \<and> progress j1 = stage_progress k \<and>
                          (type job = Url \<longrightarrow> is_download k)
           | Throw err \<Rightarrow> progress j1 = 0
           | Return \<Rightarrow> False)"
  by (auto simp: processJob_begin_def updateJob_jobs Let_def split: if_splits)

text \<open>No stretch of \<^verbatim>\<open>processJob\<close> writes the queue.\<close>

lemma processJob_jobQueue: "jobQueue (fst (processJob now jobId s)) = jobQueue s"
  by (auto simp: processJob_def processJob_settle_def split: option.splits prod.splits control.splits
           dest: processJob_begin_frame)

lemma processJob_frame:
  "processJob now jobId s = (s1, r) \<Longrightarrow>
     jobQueue s1 = jobQueue s \<and> isProcessing s1 = isProcessing s \<and> worker s1 = worker s \<and>
     (\<forall>jobId'. jobId' \<noteq> jobId \<longrightarrow> jobs s1 jobId' = jobs s jobId')"
  by (auto simp: processJob_def processJob_settle_def processJob_catch_jobs
           split: option.splits prod.splits control.splits
           dest!: processJob_begin_frame)

lemma processJob_job:
  "processJob now jobId s = (s1, r) \<Longrightarrow> jobs s jobId = Some j \<Longrightarrow>
     \<exists>j1. jobs s1 jobId = Some j1 \<and> type j1 = type j \<and>
          (case r of
             Some k \<Rightarrow> pending_jobId k = jobId \<and> status j1 = Processing \<and>
                       progress j1 = stage_progress k \<and> (type j = Url \<longrightarrow> is_download k)
           | None \<Rightarrow> status j1 = Failed \<and> progress j1 = 0)"
  by (auto simp: processJob_def processJob_settle_def processJob_catch_jobs
           split: option.splits prod.splits control.splits
           dest!: processJob_begin_job)

lemma stage_progress_values: "stage_progress k \<in> {0, 10, 20, 30, 50, 70, 90, 100}"
  by (cases k) auto

lemma resume_throw:
  "worker s = Some k \<Longrightarrow> processJob_resume now ext k s = (s1, Throw err) \<Longrightarrow>
     resume now ext s =
       processQueue_loop now (jobQueue s) (processJob_catch now (pending_jobId k) err s1)"
  by (auto simp: resume_def processJob_settle_def dest: processJob_resume_frame)

lemma processQueue_loop_frame:
  "jobId \<notin> set q \<Longrightarrow> jobs (processQueue_loop now q s) jobId = jobs s jobId"
proof (induction q arbitrary: s)
  case Nil
  then show ?case by simp
next
  case (Cons a q)
  then have ne: "jobId \<noteq> a" and nq: "jobId \<notin> set q" by auto
  show ?case
  proof (cases "a = []")
    case True
    then show ?thesis using Cons.IH [OF nq] by simp
  next
    case False
    obtain s1 r where pj: "processJob now a (s \<lparr> jobQueue := q \<rparr>) = (s1, r)"
      by (cases "processJob now a (s \<lparr> jobQueue := q \<rparr>)")
    from processJob_frame [OF pj] ne have "jobs s1 jobId = jobs s jobId" by simp
    then show ?thesis using pj False Cons.IH [OF nq, of s1]
      by (cases r) simp_all
  qed
qed

lemma processQueue_loop_file_job:
  assumes "next \<noteq> []" and "jobs s next = Some nj" and "type nj = File" and "truthy (originalFile nj)"
  shows "processQueue_loop now (next # rest) s =
           (updateJob now next (no_updates \<lparr> upd_progress := Some 10 \<rparr>)
              (updateJob now next
                 (no_updates \<lparr> upd_status := Some Processing, upd_progress := Some 0 \<rparr>)
                 (s \<lparr> jobQueue := rest \<rparr>)))
           \<lparr> worker := Some (AwaitMetadata next nj
                              (path_join uploadDir (the (originalFile nj))) False) \<rparr>"
  using assms
  by (simp add: processJob_def processJob_settle_def processJob_begin_def Let_def)


section \<open>Failure handling\<close>

text \<open>
  C2. When a stretch of the pipeline of a dequeued job throws, the \<^verbatim>\<open>catch\<close> block marks
  that job \<^verbatim>\<open>failed\<close> with the message of the thrown value and the loop of
  \<^verbatim>\<open>processQueue\<close> goes on with the queue as it stands: the failed job keeps that status and
  message, no job outside the queue is touched, an empty queue ends the drain, and a file
  job at the head of the queue is started (status \<^verbatim>\<open>processing\<close>, progress 10). The same
  holds for a throw before the first \<^verbatim>\<open>await\<close> (no valid source).
\<close>


theorem failure_isolation:
  assumes w: "worker s = Some k"
    and thr: "processJob_resume now ext k s = (s1, Throw err)"
  shows "resume now ext s =
           processQueue_loop now (jobQueue s) (processJob_catch now (pending_jobId k) err s1)
         \<and> (\<forall>j. jobs s (pending_jobId k) = Some j \<and> pending_jobId k \<notin> set (jobQueue s) \<longrightarrow>
               (\<exists>j'. jobs (resume now ext s) (pending_jobId k) = Some j' \<and>
                     status j' = Failed \<and> error j' = Some (errorMessage err)))
         \<and> (\<forall>jobId. jobId \<noteq> pending_jobId k \<and> jobId \<notin> set (jobQueue s) \<longrightarrow>
               jobs (resume now ext s) jobId = jobs s jobId)
         \<and> (jobQueue s = [] \<longrightarrow>
               \<not> isProcessing (resume now ext s) \<and> worker (resume now ext s) = None)
         \<and> (\<forall>next rest nj.
               jobQueue s = next # rest \<and> next \<noteq> [] \<and> next \<noteq> pending_jobId k \<and>
               jobs s next = Some nj \<and> type nj = File \<and> truthy (originalFile nj) \<longrightarrow>
               worker (resume now ext s)
                 = Some (AwaitMetadata next nj (path_join uploadDir (the (originalFile nj))) False)
               \<and> jobQueue (resume now ext s) = rest
               \<and> (\<exists>nj'. jobs (resume now ext s) next = Some nj' \<and> status nj' = Processing \<and>
                         progress nj' = 10))
         \<and> (\<forall>jobId job rest s0 s2 err'.
               jobId \<noteq> [] \<and> jobs s0 jobId = Some job \<and>
               processJob_begin now jobId job (s0 \<lparr> jobQueue := rest \<rparr>) = (s2, Throw err') \<longrightarrow>
               processQueue_loop now (jobId # rest) s0
                 = processQueue_loop now rest (processJob_catch now jobId err' s2))"
proof -
  let ?id = "pending_jobId k"
  let ?s2 = "processJob_catch now ?id err s1"
  have res: "resume now ext s = processQueue_loop now (jobQueue s) ?s2"
    by (rule resume_throw [OF w thr])
  from processJob_resume_frame [OF thr]
  have fr: "jobQueue s1 = jobQueue s" "\<And>i. i \<noteq> ?id \<Longrightarrow> jobs s1 i = jobs s i"
    by auto
  have a: "\<forall>j. jobs s ?id = Some j \<and> ?id \<notin> set (jobQueue s) \<longrightarrow>
               (\<exists>j'. jobs (resume now ext s) ?id = Some j' \<and>
                     status j' = Failed \<and> error j' = Some (errorMessage err))"
  proof (intro allI impI)
    fix j assume j: "jobs s ?id = Some j \<and> ?id \<notin> set (jobQueue s)"
    from processJob_resume_job [OF thr] j obtain j1 where "jobs s1 ?id = Some j1" by blast
    then show "\<exists>j'. jobs (resume now ext s) ?id = Some j' \<and>
                     status j' = Failed \<and> error j' = Some (errorMessage err)"
      using j by (simp add: res processQueue_loop_frame processJob_catch_jobs)
  qed
  have b: "\<forall>jobId. jobId \<noteq> ?id \<and> jobId \<notin> set (jobQueue s) \<longrightarrow>
               jobs (resume now ext s) jobId = jobs s jobId"
    by (simp add: res processQueue_loop_frame processJob_catch_jobs fr)
  have c: "jobQueue s = [] \<longrightarrow> \<not> isProcessing (resume now ext s) \<and> worker (resume now ext s) = None"
    by (simp add: res)
  have d: "\<forall>next rest nj.
               jobQueue s = next # rest \<and> next \<noteq> [] \<and> next \<noteq> ?id \<and>
               jobs s next = Some nj \<and> type nj = File \<and> truthy (originalFile nj) \<longrightarrow>
               worker (resume now ext s)
                 = Some (AwaitMetadata next nj (path_join uploadDir (the (originalFile nj))) False)
               \<and> jobQueue (resume now ext s) = rest
               \<and> (\<exists>nj'. jobs (resume now ext s) next = Some nj' \<and> status nj' = Processing \<and>
                         progress nj' = 10)"
  proof (intro allI impI)
    fix "next" rest nj
    assume h: "jobQueue s = next # rest \<and> next \<noteq> [] \<and> next \<noteq> ?id \<and>
               jobs s next = Some nj \<and> type nj = File \<and> truthy (originalFile nj)"
    then have nj: "jobs ?s2 next = Some nj"
      by (simp add: processJob_catch_jobs fr)
    from h have "resume now ext s = processQueue_loop now (next # rest) ?s2"
      by (simp add: res)
    also have "\<dots> = (updateJob now next (no_updates \<lparr> upd_progress := Some 10 \<rparr>)
              (updateJob now next
                 (no_updates \<lparr> upd_status := Some Processing, upd_progress := Some 0 \<rparr>)
                 (?s2 \<lparr> jobQueue := rest \<rparr>)))
           \<lparr> worker := Some (AwaitMetadata next nj
                              (path_join uploadDir (the (originalFile nj))) False) \<rparr>"
      using h nj by (intro processQueue_loop_file_job) auto
    finally show "worker (resume now ext s)
                 = Some (AwaitMetadata next nj (path_join uploadDir (the (originalFile nj))) False)
               \<and> jobQueue (resume now ext s) = rest
               \<and> (\<exists>nj'. jobs (resume now ext s) next = Some nj' \<and> status nj' = Processing \<and>
                         progress nj' = 10)"
      using nj by (simp add: updateJob_jobs)
  qed
  have e: "\<forall>jobId job rest s0 s2 err'.
               jobId \<noteq> [] \<and> jobs s0 jobId = Some job \<and>
               processJob_begin now jobId job (s0 \<lparr> jobQueue := rest \<rparr>) = (s2, Throw err') \<longrightarrow>
               processQueue_loop now (jobId # rest) s0
                 = processQueue_loop now rest (processJob_catch now jobId err' s2)"
    by (simp add: processJob_def processJob_settle_def)
  from res a b c d e show ?thesis by blast
qed


text \<open>
  Two jobs, the first waiting for its transcription, the second queued; the transcription
  service fails.
\<close>


theorem failure_isolation_witness:
  "map_option pending_jobId (worker example_two_jobs) = Some ''j1''
   \<and> jobQueue example_two_jobs = [''j2'']
   \<and> map_option (\<lambda>j. (status j, progress j, error j))
        (jobs (resume 5 example_whisper_down example_two_jobs) ''j1'')
       = Some (Failed, 50, Some ''Transcription failed: service unavailable'')
   \<and> map_option (\<lambda>j. (status j, progress j))
        (jobs (resume 5 example_whisper_down example_two_jobs) ''j2'') = Some (Processing, 10)
   \<and> map_option pending_jobId (worker (resume 5 example_whisper_down example_two_jobs))
       = Some ''j2''"
proof -
  let ?k = "the (worker example_two_jobs)"
  have w: "worker example_two_jobs = Some ?k"
    by (simp add: model_defs example_defs)
  have thr: "processJob_resume 5 example_whisper_down ?k example_two_jobs
               = (example_two_jobs, Throw (Error ''Transcription failed: service unavailable''))"
    by (simp add: model_defs example_defs)
  from failure_isolation [OF w thr] show ?thesis
    by (simp add: model_defs example_defs)
qed


text \<open>
  C10. The update of the \<^verbatim>\<open>catch\<close> block writes \<^verbatim>\<open>status\<close> and \<^verbatim>\<open>error\<close> (and, as every
  \<^verbatim>\<open>updateJob\<close>, refreshes \<^verbatim>\<open>updatedAt\<close>): after a failing stretch the job's record is the
  record at the throw with those fields set, so its progress is the one the pipeline had
  reached, neither reset nor advanced.
\<close>


theorem failure_keeps_progress:
  assumes w: "worker s = Some k"
    and thr: "processJob_resume now ext k s = (s1, Throw err)"
    and j: "jobs s1 (pending_jobId k) = Some j"
    and nq: "pending_jobId k \<notin> set (jobQueue s)"
  shows "jobs (resume now ext s) (pending_jobId k)
           = Some (j \<lparr> status := Failed, error := Some (errorMessage err), updatedAt := now \<rparr>)
         \<and> map_option progress (jobs (resume now ext s) (pending_jobId k)) = Some (progress j)"
  using j nq
  by (simp add: resume_throw [OF w thr] processQueue_loop_frame processJob_catch_jobs)

theorem failure_keeps_progress_witness:
  "map_option (\<lambda>j. (status j, progress j))
     (jobs (run (initial example_files) example_submit) ''j1'') = Some (Processing, 10)
   \<and> map_option (\<lambda>j. (status j, progress j, error j))
        (jobs (resume 2 example_probe_fails (run (initial example_files) example_submit)) ''j1'')
       = Some (Failed, 10, Some ''Unable to read audio metadata'')"
proof -
  let ?s = "run (initial example_files) example_submit"
  let ?k = "the (worker ?s)"
  have w: "worker ?s = Some ?k"
    by (simp add: model_defs example_defs)
  have thr: "processJob_resume 2 example_probe_fails ?k ?s
               = (?s, Throw (Error ''Unable to read audio metadata''))"
    by (simp add: model_defs example_defs)
  have j: "jobs ?s (pending_jobId ?k) = Some (the (jobs ?s ''j1''))"
    by (simp add: model_defs example_defs)
  have nq: "pending_jobId ?k \<notin> set (jobQueue ?s)"
    by (simp add: model_defs example_defs)
  from failure_keeps_progress [OF w thr j nq] show ?thesis
    by (simp add: model_defs example_defs)
qed


section \<open>The invariant of the runs\<close>


lemma progress_le_refl: "progress_le s s"
  by (simp add: progress_le_def)

lemma progress_le_trans: "progress_le s s1 \<Longrightarrow> progress_le s1 s2 \<Longrightarrow> progress_le s s2"
  unfolding progress_le_def by (meson le_trans)

lemma processQueue_loop_invariant:
  "distinct q \<Longrightarrow>
   (\<forall>jobId \<in> set q. \<exists>j. jobs s jobId = Some j \<and> status j = Queued \<and> progress j = 0) \<Longrightarrow>
   jobs_ok s \<Longrightarrow> isProcessing s \<Longrightarrow> jobQueue s = q \<Longrightarrow>
   invariant (processQueue_loop now q s) \<and> progress_le s (processQueue_loop now q s)"
proof (induction q arbitrary: s)
  case Nil
  then show ?case
    by (simp add: invariant_def queue_ok_def worker_ok_def jobs_ok_def progress_le_def)
next
  case (Cons jobId rest)
  let ?s0 = "s \<lparr> jobQueue := rest \<rparr>"
  have d: "distinct rest" and notin: "jobId \<notin> set rest"
    using Cons.prems(1) by auto
  have queued0: "\<forall>i \<in> set rest. \<exists>j. jobs ?s0 i = Some j \<and> status j = Queued \<and> progress j = 0"
    using Cons.prems(2) by simp
  have ok0: "jobs_ok ?s0" using Cons.prems(3) by (simp add: jobs_ok_def)
  have ip0: "isProcessing ?s0" using Cons.prems(4) by simp
  show ?case
  proof (cases "jobId = []")
    case True
    have "invariant (processQueue_loop now rest ?s0) \<and> progress_le ?s0 (processQueue_loop now rest ?s0)"
      by (rule Cons.IH [OF d queued0 ok0 ip0]) simp
    moreover have "progress_le s ?s0" by (simp add: progress_le_def)
    ultimately show ?thesis using True
      by (auto intro: progress_le_trans)
  next
    case False
    obtain s1 r where pj: "processJob now jobId ?s0 = (s1, r)"
      by (cases "processJob now jobId ?s0")
    obtain j where j: "jobs ?s0 jobId = Some j" "status j = Queued" "progress j = 0"
      using Cons.prems(2) by auto
    from processJob_frame [OF pj]
    have fr: "jobQueue s1 = rest" "isProcessing s1" "\<And>i. i \<noteq> jobId \<Longrightarrow> jobs s1 i = jobs s i"
      using ip0 by auto
    from processJob_job [OF pj j(1)]
    obtain j1 where j1: "jobs s1 jobId = Some j1" "type j1 = type j"
      and r: "case r of
                Some k \<Rightarrow> pending_jobId k = jobId \<and> status j1 = Processing \<and>
                          progress j1 = stage_progress k \<and> (type j = Url \<longrightarrow> is_download k)
              | None \<Rightarrow> status j1 = Failed \<and> progress j1 = 0"
      by blast
    have pv: "progress j1 \<in> {0, 10, 20, 30, 50, 70, 90, 100}" "status j1 \<noteq> Completed"
      using r stage_progress_values by (auto split: option.splits)
    have ok1: "jobs_ok s1"
      unfolding jobs_ok_def
    proof (intro allI impI)
      fix i x assume x: "jobs s1 i = Some x"
      show "progress x \<in> {0, 10, 20, 30, 50, 70, 90, 100} \<and> (type x = Url \<longrightarrow> status x \<noteq> Completed)"
      proof (cases "i = jobId")
        case True then show ?thesis using x j1 pv by auto
      next
        case False
        then have "jobs s i = Some x" using x fr(3) by simp
        then show ?thesis using Cons.prems(3) by (auto simp: jobs_ok_def)
      qed
    qed
    have le1: "progress_le s s1"
      unfolding progress_le_def
    proof (intro allI impI)
      fix i x assume x: "jobs s i = Some x"
      show "\<exists>j'. jobs s1 i = Some j' \<and> progress x \<le> progress j'"
      proof (cases "i = jobId")
        case True then show ?thesis using x j j1 by auto
      next
        case False then show ?thesis using x fr(3) by auto
      qed
    qed
    have queued1: "\<forall>i \<in> set rest. \<exists>j. jobs s1 i = Some j \<and> status j = Queued \<and> progress j = 0"
    proof
      fix i assume i: "i \<in> set rest"
      then have "i \<noteq> jobId" using notin by auto
      then have "jobs s1 i = jobs s i" by (rule fr(3))
      then show "\<exists>j. jobs s1 i = Some j \<and> status j = Queued \<and> progress j = 0"
        using Cons.prems(2) i by simp
    qed
    show ?thesis
    proof (cases r)
      case None
      have "invariant (processQueue_loop now rest s1) \<and> progress_le s1 (processQueue_loop now rest s1)"
        by (rule Cons.IH [OF d queued1 ok1 fr(2) fr(1)])
      then show ?thesis using pj None False le1
        by (auto intro: progress_le_trans)
    next
      case (Some k)
      let ?s2 = "s1 \<lparr> worker := Some k \<rparr>"
      have res: "processQueue_loop now (jobId # rest) s = ?s2"
        using pj Some False by simp
      have "queue_ok ?s2"
        using d queued1 fr(1) by (simp add: queue_ok_def)
      moreover have "jobs_ok ?s2" using ok1 by (simp add: jobs_ok_def)
      moreover have "worker_ok ?s2"
        using r Some j1 j fr(2) by (auto simp: worker_ok_def)
      moreover have "progress_le s ?s2"
        using le1 by (simp add: progress_le_def)
      ultimately show ?thesis unfolding res invariant_def by simp
    qed
  qed
qed


lemma processQueue_loop_queue_ok:
  "queue_ok s \<Longrightarrow> jobs_ok s \<Longrightarrow> isProcessing s \<Longrightarrow>
   invariant (processQueue_loop now (jobQueue s) s) \<and>
   progress_le s (processQueue_loop now (jobQueue s) s)"
  by (rule processQueue_loop_invariant) (auto simp: queue_ok_def)

lemma settle_resume_invariant:
  assumes inv: "invariant s" and w: "worker s = Some k"
    and st: "processJob_settle now (pending_jobId k) (processJob_resume now ext k s) = (s2, r)"
  shows "queue_ok s2 \<and> jobs_ok s2 \<and> progress_le s s2 \<and> isProcessing s2 \<and>
         (\<forall>k'. r = Some k' \<longrightarrow>
            (\<exists>j2. jobs s2 (pending_jobId k') = Some j2 \<and> status j2 \<noteq> Queued \<and>
                  progress j2 = stage_progress k' \<and> (type j2 = Url \<longrightarrow> is_download k')))"
proof -
  let ?id = "pending_jobId k"
  obtain s1 c where pr: "processJob_resume now ext k s = (s1, c)"
    by (cases "processJob_resume now ext k s")
  from inv w obtain j where j: "jobs s ?id = Some j" "status j \<noteq> Queued"
      "progress j = stage_progress k" "type j = Url \<longrightarrow> is_download k"
    and ip: "isProcessing s"
    by (auto simp: invariant_def worker_ok_def)
  from inv have qok: "queue_ok s" and jok: "jobs_ok s" by (auto simp: invariant_def)
  have notq: "?id \<notin> set (jobQueue s)"
    using qok j by (auto simp: queue_ok_def)
  from processJob_resume_frame [OF pr]
  have fr1: "jobQueue s1 = jobQueue s" "isProcessing s1" "\<And>i. i \<noteq> ?id \<Longrightarrow> jobs s1 i = jobs s i"
    using ip by auto
  from processJob_resume_job [OF pr j(1)]
  obtain j1 where j1: "jobs s1 ?id = Some j1" "type j1 = type j"
    and c: "case c of
             Suspend k' \<Rightarrow> pending_jobId k' = pending_jobId k \<and> status j1 = status j \<and>
                           progress j1 = stage_progress k' \<and> stage_progress k \<le> stage_progress k' \<and>
                           \<not> is_download k' \<and> \<not> is_download k
           | Throw err \<Rightarrow> status j1 = status j \<and> (progress j1 = progress j \<or> (progress j1 = 50 \<and> stage_progress k = 30))
           | Return \<Rightarrow> status j1 = Completed \<and> progress j1 = 100 \<and> \<not> is_download k"
    by blast
  have fr2: "jobQueue s2 = jobQueue s" "isProcessing s2" "\<And>i. i \<noteq> ?id \<Longrightarrow> jobs s2 i = jobs s i"
    using st pr fr1
    by (auto simp: processJob_settle_def processJob_catch_jobs split: control.splits)
  obtain j2 where j2: "jobs s2 ?id = Some j2" "type j2 = type j" "progress j2 = progress j1"
      "status j2 = (case c of Throw err \<Rightarrow> Failed | _ \<Rightarrow> status j1)"
    using st pr j1
    by (auto simp: processJob_settle_def processJob_catch_jobs split: control.splits)
  have r: "r = (case c of Suspend k' \<Rightarrow> Some k' | _ \<Rightarrow> None)"
    using st pr by (auto simp: processJob_settle_def split: control.splits)
  have jpv: "progress j \<in> {0, 10, 20, 30, 50, 70, 90, 100}" "type j = Url \<longrightarrow> status j \<noteq> Completed"
    using jok j(1) by (auto simp: jobs_ok_def)
  have j2ok: "progress j2 \<in> {0, 10, 20, 30, 50, 70, 90, 100}" "type j2 = Url \<longrightarrow> status j2 \<noteq> Completed"
      "progress j \<le> progress j2"
  proof -
    have le100: "stage_progress k \<le> 100"
      using stage_progress_values [of k] by auto
    show "progress j2 \<in> {0, 10, 20, 30, 50, 70, 90, 100}"
    proof (cases c)
      case (Suspend k')
      then show ?thesis using c j2 stage_progress_values [of k'] by simp
    next
      case (Throw err)
      then show ?thesis using c j2 jpv by auto
    next
      case Return
      then show ?thesis using c j2 by simp
    qed
    show "type j2 = Url \<longrightarrow> status j2 \<noteq> Completed"
      using c j2 j jpv by (cases c) auto
    show "progress j \<le> progress j2"
      using c j2 j le100 by (cases c) auto
  qed
  have "queue_ok s2"
    unfolding queue_ok_def fr2(1)
  proof (intro conjI ballI)
    show "distinct (jobQueue s)" using qok by (simp add: queue_ok_def)
  next
    fix i assume i: "i \<in> set (jobQueue s)"
    then have "i \<noteq> ?id" using notq by auto
    then have "jobs s2 i = jobs s i" by (rule fr2(3))
    then show "\<exists>j. jobs s2 i = Some j \<and> status j = Queued \<and> progress j = 0"
      using qok i by (simp add: queue_ok_def)
  qed
  moreover have "jobs_ok s2"
    unfolding jobs_ok_def
  proof (intro allI impI)
    fix i x assume x: "jobs s2 i = Some x"
    show "progress x \<in> {0, 10, 20, 30, 50, 70, 90, 100} \<and> (type x = Url \<longrightarrow> status x \<noteq> Completed)"
    proof (cases "i = ?id")
      case True then show ?thesis using x j2 j2ok by auto
    next
      case False
      then have "jobs s i = Some x" using x fr2(3) by simp
      then show ?thesis using jok by (auto simp: jobs_ok_def)
    qed
  qed
  moreover have "progress_le s s2"
    unfolding progress_le_def
  proof (intro allI impI)
    fix i x assume x: "jobs s i = Some x"
    show "\<exists>j'. jobs s2 i = Some j' \<and> progress x \<le> progress j'"
    proof (cases "i = ?id")
      case True then show ?thesis using x j j2 j2ok by auto
    next
      case False then show ?thesis using x fr2(3) by auto
    qed
  qed
  moreover have "\<forall>k'. r = Some k' \<longrightarrow>
            (\<exists>j2. jobs s2 (pending_jobId k') = Some j2 \<and> status j2 \<noteq> Queued \<and>
                  progress j2 = stage_progress k' \<and> (type j2 = Url \<longrightarrow> is_download k'))"
    using r c j2 j by (auto split: control.splits)
  ultimately show ?thesis using fr2(2) by simp
qed

lemma resume_invariant:
  assumes inv: "invariant s"
  shows "invariant (resume now ext s) \<and> progress_le s (resume now ext s)"
proof (cases "worker s")
  case None
  then show ?thesis using inv by (simp add: resume_def progress_le_refl)
next
  case (Some k)
  obtain s2 r where st:
    "processJob_settle now (pending_jobId k) (processJob_resume now ext k s) = (s2, r)"
    by (cases "processJob_settle now (pending_jobId k) (processJob_resume now ext k s)")
  note eff = settle_resume_invariant [OF inv Some st]
  show ?thesis
  proof (cases r)
    case None
    have "resume now ext s = processQueue_loop now (jobQueue s2) s2"
      using Some st None by (simp add: resume_def)
    moreover have "invariant (processQueue_loop now (jobQueue s2) s2) \<and>
      progress_le s2 (processQueue_loop now (jobQueue s2) s2)"
      using eff by (intro processQueue_loop_queue_ok) auto
    ultimately show ?thesis using eff by (auto intro: progress_le_trans)
  next
    case (Some k')
    have res: "resume now ext s = s2 \<lparr> worker := Some k' \<rparr>"
      using \<open>worker s = Some k\<close> st Some by (simp add: resume_def)
    have "queue_ok (s2 \<lparr> worker := Some k' \<rparr>)" using eff by (simp add: queue_ok_def)
    moreover have "jobs_ok (s2 \<lparr> worker := Some k' \<rparr>)" using eff by (simp add: jobs_ok_def)
    moreover have "worker_ok (s2 \<lparr> worker := Some k' \<rparr>)"
      using eff Some by (simp add: worker_ok_def)
    moreover have "progress_le s (s2 \<lparr> worker := Some k' \<rparr>)"
      using eff by (simp add: progress_le_def)
    ultimately show ?thesis unfolding res invariant_def by simp
  qed
qed


lemma createJob_invariant:
  assumes inv: "invariant s" and fr: "jobs s jobId = None"
  shows "invariant (createJob now jobId user request s) \<and>
         progress_le s (createJob now jobId user request s)"
proof -
  define job where "job = \<lparr> job_id = jobId, userId = user_id user, type = req_type request,
      status = Queued, progress = 0, originalFile = req_file request, url = req_url request,
      options = req_options request, error = None, createdAt = now, updatedAt = now,
      completedAt = None \<rparr>"
  define s1 where "s1 = s \<lparr> jobs := (jobs s)(jobId \<mapsto> job), jobQueue := jobQueue s @ [jobId] \<rparr>"
  have cj: "createJob now jobId user request s = (if \<not> isProcessing s1 then processQueue now s1 else s1)"
    by (simp add: createJob_def Let_def s1_def job_def)
  from inv have qok: "queue_ok s" and jok: "jobs_ok s" and wok: "worker_ok s"
    by (auto simp: invariant_def)
  have notq: "jobId \<notin> set (jobQueue s)"
    using qok fr by (auto simp: queue_ok_def)
  have q1: "queue_ok s1"
    using qok notq fr by (auto simp: queue_ok_def s1_def job_def)
  have j1: "jobs_ok s1"
    using jok by (auto simp: jobs_ok_def s1_def job_def)
  have le1: "progress_le s s1"
    using fr by (auto simp: progress_le_def s1_def)
  show ?thesis
  proof (cases "isProcessing s")
    case True
    have "worker_ok s1"
      using wok fr by (auto simp: worker_ok_def s1_def)
    then show ?thesis using True cj q1 j1 le1 by (simp add: invariant_def s1_def)
  next
    case False
    let ?s2 = "s1 \<lparr> isProcessing := True \<rparr>"
    have res: "createJob now jobId user request s = processQueue_loop now (jobQueue ?s2) ?s2"
      using False cj by (simp add: processQueue_def s1_def)
    have "queue_ok ?s2" using q1 by (simp add: queue_ok_def)
    moreover have "jobs_ok ?s2" using j1 by (simp add: jobs_ok_def)
    ultimately have "invariant (processQueue_loop now (jobQueue ?s2) ?s2) \<and>
      progress_le ?s2 (processQueue_loop now (jobQueue ?s2) ?s2)"
      by (intro processQueue_loop_queue_ok) auto
    moreover have "progress_le s ?s2" using le1 by (simp add: progress_le_def)
    ultimately show ?thesis unfolding res by (auto intro: progress_le_trans)
  qed
qed

lemma cancelJob_invariant:
  assumes inv: "invariant s"
  shows "invariant (snd (cancelJob now jobId s)) \<and> progress_le s (snd (cancelJob now jobId s))"
proof (cases "\<exists>job. jobs s jobId = Some job \<and> status job \<noteq> Completed \<and> status job \<noteq> Failed")
  case False
  then have "snd (cancelJob now jobId s) = s"
    by (auto simp: cancelJob_def split: option.splits)
  then show ?thesis using inv by (simp add: progress_le_refl)
next
  case True
  then obtain job where job: "jobs s jobId = Some job" "status job \<noteq> Completed" "status job \<noteq> Failed"
    by blast
  define s1 where "s1 = (if status job = Queued
                         then s \<lparr> jobQueue := remove1 jobId (jobQueue s) \<rparr> else s)"
  define u where "u = no_updates \<lparr> upd_status := Some Failed, upd_error := Some ''Cancelled by user'' \<rparr>"
  have res: "snd (cancelJob now jobId s) = updateJob now jobId u s1"
    using job by (simp add: cancelJob_def Let_def s1_def u_def)
  from inv have qok: "queue_ok s" and jok: "jobs_ok s" and wok: "worker_ok s"
    by (auto simp: invariant_def)
  have js1: "jobs s1 = jobs s" "worker s1 = worker s" "isProcessing s1 = isProcessing s"
    by (simp_all add: s1_def)
  have notq1: "jobId \<notin> set (jobQueue s1)" and sub: "set (jobQueue s1) \<subseteq> set (jobQueue s)"
    and d1: "distinct (jobQueue s1)"
    using qok job by (auto simp: s1_def queue_ok_def)
  let ?s2 = "updateJob now jobId u s1"
  have jobs2: "\<And>i. jobs ?s2 i = (if i = jobId then Some (Object_assign job u now) else jobs s i)"
    using job by (simp add: updateJob_jobs js1)
  have pu: "progress (Object_assign job u now) = progress job"
     "status (Object_assign job u now) = Failed" "type (Object_assign job u now) = type job"
    by (simp_all add: u_def)
  have "queue_ok ?s2"
    unfolding queue_ok_def
  proof (intro conjI ballI)
    show "distinct (jobQueue ?s2)" using d1 by simp
  next
    fix i assume "i \<in> set (jobQueue ?s2)"
    then have i: "i \<in> set (jobQueue s)" "i \<noteq> jobId" using sub notq1 by auto
    then show "\<exists>j. jobs ?s2 i = Some j \<and> status j = Queued \<and> progress j = 0"
      using qok by (simp add: jobs2 queue_ok_def)
  qed
  moreover have "jobs_ok ?s2"
    using jok job pu by (auto simp: jobs_ok_def jobs2 split: if_splits)
  moreover have "worker_ok ?s2"
    unfolding worker_ok_def
  proof (intro conjI allI impI)
    show "isProcessing ?s2 = (worker ?s2 \<noteq> None)"
      using wok by (simp add: worker_ok_def js1)
  next
    fix k assume "worker ?s2 = Some k"
    then have k: "worker s = Some k" by (simp add: js1)
    then obtain j where j: "jobs s (pending_jobId k) = Some j" "status j \<noteq> Queued"
        "progress j = stage_progress k" "type j = Url \<longrightarrow> is_download k"
      using wok by (auto simp: worker_ok_def)
    show "\<exists>j. jobs ?s2 (pending_jobId k) = Some j \<and> status j \<noteq> Queued \<and>
              progress j = stage_progress k \<and> (type j = Url \<longrightarrow> is_download k)"
      using j job pu by (cases "pending_jobId k = jobId") (auto simp: jobs2)
  qed
  moreover have "progress_le s ?s2"
    using job pu by (auto simp: progress_le_def jobs2)
  ultimately show ?thesis unfolding res invariant_def by simp
qed

lemma step_invariant:
  "invariant s \<Longrightarrow> fresh s ev \<Longrightarrow> invariant (step s ev) \<and> progress_le s (step s ev)"
proof (cases ev)
  case (Pair now e)
  assume "invariant s" "fresh s ev"
  then show ?thesis using Pair
    by (cases e)
       (auto simp: fresh_def createJob_invariant cancelJob_invariant resume_invariant)
qed

lemma invariant_initial: "invariant (initial fs)"
  by (simp add: invariant_def queue_ok_def jobs_ok_def worker_ok_def initial_def)

lemma run_append: "run s (evs @ evs') = run (run s evs) evs'"
  by (simp add: run_def)

lemma fresh_run_append:
  "fresh_run s (evs @ evs') = (fresh_run s evs \<and> fresh_run (run s evs) evs')"
  by (induction evs arbitrary: s) (simp_all add: run_def)

lemma run_invariant:
  "invariant s \<Longrightarrow> fresh_run s evs \<Longrightarrow> invariant (run s evs) \<and> progress_le s (run s evs)"
proof (induction evs arbitrary: s)
  case Nil
  then show ?case by (simp add: run_def progress_le_refl)
next
  case (Cons ev evs)
  from Cons.prems have "invariant (step s ev)" "progress_le s (step s ev)"
    "fresh_run (step s ev) evs"
    using step_invariant by auto
  with Cons.IH [of "step s ev"] show ?case
    by (auto simp: run_def intro: progress_le_trans)
qed


text \<open>
  C4. Along every run of the service from its start in which submissions get new
  identifiers, the progress of a job never decreases from one state to a later one, it is
  always one of 0, 10, 20, 30, 50, 70, 90, 100, while a pipeline is suspended its job
  stands at the progress of that stage (0 before the download, 10 or 20 before the probe,
  then 30, 50, 70, 90), and a job in the queue is \<^verbatim>\<open>queued\<close> at progress 0, the value
  \<^verbatim>\<open>createJob\<close> gave it and the one the start of \<^verbatim>\<open>processJob\<close> writes again.
\<close>


theorem progress_monotone:
  "fresh_run (initial fs) (evs @ evs') \<Longrightarrow> jobs (run (initial fs) evs) jobId = Some j \<Longrightarrow>
     (\<exists>j'. jobs (run (initial fs) (evs @ evs')) jobId = Some j' \<and> progress j \<le> progress j' \<and>
           progress j' \<in> {0, 10, 20, 30, 50, 70, 90, 100})
     \<and> (\<forall>k. worker (run (initial fs) (evs @ evs')) = Some k \<longrightarrow>
            map_option progress (jobs (run (initial fs) (evs @ evs')) (pending_jobId k))
              = Some (stage_progress k))
     \<and> (\<forall>q \<in> set (jobQueue (run (initial fs) (evs @ evs'))).
            map_option (\<lambda>j. (status j, progress j)) (jobs (run (initial fs) (evs @ evs')) q)
              = Some (Queued, 0))"
proof -
  assume fr: "fresh_run (initial fs) (evs @ evs')" and j: "jobs (run (initial fs) evs) jobId = Some j"
  let ?s = "run (initial fs) evs"
  from fr have f1: "fresh_run (initial fs) evs" and f2: "fresh_run ?s evs'"
    by (simp_all add: fresh_run_append)
  have inv1: "invariant ?s"
    using run_invariant [OF invariant_initial f1] by simp
  from run_invariant [OF inv1 f2]
  have inv2: "invariant (run ?s evs')" and le: "progress_le ?s (run ?s evs')" by simp_all
  from le j obtain j' where j': "jobs (run ?s evs') jobId = Some j'" "progress j \<le> progress j'"
    by (auto simp: progress_le_def)
  moreover have "progress j' \<in> {0, 10, 20, 30, 50, 70, 90, 100}"
    using inv2 j'(1) by (auto simp: invariant_def jobs_ok_def)
  moreover have "\<forall>k. worker (run ?s evs') = Some k \<longrightarrow>
      map_option progress (jobs (run ?s evs') (pending_jobId k)) = Some (stage_progress k)"
    using inv2 by (auto simp: invariant_def worker_ok_def)
  moreover have "\<forall>q \<in> set (jobQueue (run ?s evs')).
      map_option (\<lambda>j. (status j, progress j)) (jobs (run ?s evs') q) = Some (Queued, 0)"
    using inv2 by (auto simp: invariant_def queue_ok_def)
  ultimately show ?thesis by (auto simp: run_append)
qed

theorem progress_monotone_witness:
  "fresh_run (initial example_files)
     (example_submit @ [(2, Answer example_external), (3, Answer example_external),
                        (4, Answer example_external), (5, Answer example_external),
                        (6, Answer example_external)])
   \<and> map_option progress (jobs (run (initial example_files) example_submit) ''j1'') = Some 10
   \<and> map_option progress
        (jobs (run (initial example_files)
                 (example_submit @ [(2, Answer example_external), (3, Answer example_external)]))
           ''j1'') = Some 50
   \<and> (\<exists>j'. jobs (run (initial example_files)
                    ((example_submit @ [(2, Answer example_external), (3, Answer example_external)])
                     @ [(4, Answer example_external), (5, Answer example_external),
                        (6, Answer example_external)])) ''j1'' = Some j'
           \<and> 50 \<le> progress j' \<and> progress j' \<in> {0, 10, 20, 30, 50, 70, 90, 100})
   \<and> map_option stage_progress
        (worker (run (initial example_files)
                   (example_submit @ [(2, Answer example_external), (3, Answer example_external)])))
       = Some 50
   \<and> jobQueue example_two_jobs = [''j2'']
   \<and> map_option (\<lambda>j. (status j, progress j)) (jobs example_two_jobs ''j2'') = Some (Queued, 0)"
proof -
  have f: "fresh_run (initial example_files)
     ((example_submit @ [(2, Answer example_external), (3, Answer example_external)])
      @ [(4, Answer example_external), (5, Answer example_external), (6, Answer example_external)])"
    by (simp add: model_defs example_defs)
  obtain j where j: "jobs (run (initial example_files)
                 (example_submit @ [(2, Answer example_external), (3, Answer example_external)]))
           ''j1'' = Some j" "progress j = 50"
    by (simp add: model_defs example_defs)
  have f2: "fresh_run (initial (insert ''uploads/b.mp3'' example_files)) (example_two_submits @ [])"
    by (simp add: model_defs example_defs)
  have j2: "jobs (run (initial (insert ''uploads/b.mp3'' example_files)) example_two_submits) ''j1''
              = Some (the (jobs example_two_jobs ''j1''))"
    by (simp add: model_defs example_defs)
  from progress_monotone [OF f j(1)] progress_monotone [OF f2 j2] j(2) f show ?thesis
    by (simp add: model_defs example_defs)
qed


section \<open>URL jobs\<close>

text \<open>
  C7. A URL job that \<^verbatim>\<open>processJob\<close> takes from the queue is set to \<^verbatim>\<open>processing\<close> at
  progress 0 and waits for the download; when the download answers, the job is \<^verbatim>\<open>failed\<close>
  with the message \<^verbatim>\<open>URL download not implemented yet\<close>. A URL job without a URL is
  \<^verbatim>\<open>failed\<close> at once with \<^verbatim>\<open>No valid audio source provided\<close>. In no run with new
  identifiers is a URL job ever \<^verbatim>\<open>completed\<close>.
\<close>


theorem url_job_fails:
  "(jobs s jobId = Some job \<and> type job = Url \<and> truthy (url job) \<longrightarrow>
      processJob now jobId s
        = (updateJob now jobId
             (no_updates \<lparr> upd_status := Some Processing, upd_progress := Some 0 \<rparr>) s,
           Some (AwaitDownload jobId job)))
   \<and> (jobs s jobId = Some job \<and> type job = Url \<and> \<not> truthy (url job) \<longrightarrow>
        snd (processJob now jobId s) = None \<and>
        jobs (fst (processJob now jobId s)) jobId
          = Some (job \<lparr> status := Failed, progress := 0,
                        error := Some ''No valid audio source provided'', updatedAt := now \<rparr>))
   \<and> (worker s = Some (AwaitDownload jobId job) \<and> jobs s jobId = Some j \<and>
      jobId \<notin> set (jobQueue s) \<longrightarrow>
        jobs (resume now ext s) jobId
          = Some (j \<lparr> status := Failed, error := Some ''URL download not implemented yet'',
                      updatedAt := now \<rparr>))
   \<and> (fresh_run (initial fs) evs \<and> jobs (run (initial fs) evs) jobId = Some j \<and> type j = Url \<longrightarrow>
        status j \<noteq> Completed)"
proof (intro conjI impI)
  assume "jobs s jobId = Some job \<and> type job = Url \<and> truthy (url job)"
  then show "processJob now jobId s
        = (updateJob now jobId
             (no_updates \<lparr> upd_status := Some Processing, upd_progress := Some 0 \<rparr>) s,
           Some (AwaitDownload jobId job))"
    by (simp add: processJob_def processJob_begin_def processJob_settle_def)
next
  assume h: "jobs s jobId = Some job \<and> type job = Url \<and> \<not> truthy (url job)"
  then show "snd (processJob now jobId s) = None"
    by (simp add: processJob_def processJob_begin_def processJob_settle_def)
  from h show "jobs (fst (processJob now jobId s)) jobId
          = Some (job \<lparr> status := Failed, progress := 0,
                        error := Some ''No valid audio source provided'', updatedAt := now \<rparr>)"
    by (simp add: processJob_def processJob_begin_def processJob_settle_def
          processJob_catch_jobs updateJob_jobs Object_assign_def errorMessage_def)
next
  assume h: "worker s = Some (AwaitDownload jobId job) \<and> jobs s jobId = Some j \<and>
      jobId \<notin> set (jobQueue s)"
  have thr: "processJob_resume now ext (AwaitDownload jobId job) s
               = (s, Throw (Error ''URL download not implemented yet''))"
    by (simp add: downloadAudioFromUrl_def)
  from h have w: "worker s = Some (AwaitDownload jobId job)" by simp
  show "jobs (resume now ext s) jobId
          = Some (j \<lparr> status := Failed, error := Some ''URL download not implemented yet'',
                      updatedAt := now \<rparr>)"
    using h resume_throw [OF w thr]
    by (simp add: processQueue_loop_frame processJob_catch_jobs errorMessage_def)
next
  assume h: "fresh_run (initial fs) evs \<and> jobs (run (initial fs) evs) jobId = Some j \<and> type j = Url"
  then have "invariant (run (initial fs) evs)"
    using run_invariant [OF invariant_initial] by simp
  then show "status j \<noteq> Completed"
    using h by (auto simp: invariant_def jobs_ok_def)
qed

theorem url_job_fails_witness:
  "map_option (\<lambda>j. (status j, progress j, error j))
     (jobs (run (initial example_files) example_url_submit) ''j1'') = Some (Processing, 0, None)
   \<and> map_option (\<lambda>j. (status j, progress j, error j))
        (jobs (run (initial example_files) (example_url_submit @ [(2, Answer example_external)]))
           ''j1'')
       = Some (Failed, 0, Some ''URL download not implemented yet'')
   \<and> map_option (\<lambda>j. (status j, error j))
        (jobs (fst (processJob 1 ''j1'' (example_registry (example_url_job \<lparr> url := None \<rparr>))))
           ''j1'')
       = Some (Failed, Some ''No valid audio source provided'')
   \<and> snd (processJob 1 ''j1'' (example_registry example_url_job))
       = Some (AwaitDownload ''j1'' example_url_job)
   \<and> worker (run (initial example_files) example_url_submit)
       = Some (AwaitDownload ''j1'' example_url_job)"
proof -
  let ?s1 = "run (initial example_files) example_url_submit"
  let ?evs = "example_url_submit @ [(2, Answer example_external)]"
  let ?s2 = "run (initial example_files) ?evs"
  note a = url_job_fails [where s = "example_registry example_url_job" and jobId = "''j1''"
      and job = example_url_job and now = 1 and fs = example_files and evs = ?evs
      and j = "the (jobs ?s2 ''j1'')"]
  note b = url_job_fails [where s = "example_registry (example_url_job \<lparr> url := None \<rparr>)"
      and jobId = "''j1''" and job = "example_url_job \<lparr> url := None \<rparr>" and now = 1
      and fs = example_files and evs = "[]"]
  note c = url_job_fails [where s = ?s1 and jobId = "''j1''" and job = example_url_job
      and now = 2 and ext = example_external and j = "the (jobs ?s1 ''j1'')"
      and fs = example_files and evs = "[]"]
  from a b c show ?thesis
    by (simp add: model_defs example_defs)
qed


section \<open>Cancellation and cleanup at concrete inputs\<close>

text \<open>
  C1. The run the claim excludes: the file job \<^verbatim>\<open>j1\<close> is submitted and its pipeline waits
  for the probe; \<^verbatim>\<open>cancelJob\<close> returns true and the job is \<^verbatim>\<open>failed\<close>; every call of the
  pipeline then succeeds, and the job ends \<^verbatim>\<open>completed\<close> at progress 100, still carrying
  the cancellation message.
\<close>


theorem cancelled_job_completes:
  "fst (cancelJob 2 ''j1'' (run (initial example_files) example_submit)) = True
   \<and> map_option (\<lambda>j. (status j, progress j, error j))
        (jobs (run (initial example_files) (example_submit @ [(2, Cancel ''j1'')])) ''j1'')
       = Some (Failed, 10, Some ''Cancelled by user'')
   \<and> map_option (\<lambda>j. (status j, progress j, error j))
        (jobs (run (initial example_files)
                 (example_submit @ [(2, Cancel ''j1''),
                    (3, Answer example_external), (4, Answer example_external),
                    (5, Answer example_external), (6, Answer example_external),
                    (7, Answer example_external)])) ''j1'')
       = Some (Completed, 100, Some ''Cancelled by user'')"
  by (simp add: model_defs example_defs)


text \<open>
  C3. A run in which the normalisation succeeds and the transcription fails: the job is
  \<^verbatim>\<open>failed\<close>, no pipeline is left, and the converted file the normalisation wrote is still
  on disk. The cleanup stands at the end of the \<^verbatim>\<open>try\<close> block and the \<^verbatim>\<open>catch\<close> block has
  none.
\<close>


theorem failed_job_leaves_processed_file:
  "''uploads/a_processed.wav'' \<notin> example_files
   \<and> map_option (\<lambda>j. (status j, error j))
        (jobs (run (initial example_files)
                 (example_submit @ [(2, Answer example_external), (3, Answer example_external),
                                    (4, Answer example_whisper_down)])) ''j1'')
       = Some (Failed, Some ''Transcription failed: service unavailable'')
   \<and> worker (run (initial example_files)
                 (example_submit @ [(2, Answer example_external), (3, Answer example_external),
                                    (4, Answer example_whisper_down)])) = None
   \<and> ''uploads/a_processed.wav''
        \<in> files (run (initial example_files)
                   (example_submit @ [(2, Answer example_external), (3, Answer example_external),
                                      (4, Answer example_whisper_down)]))"
  by (simp add: model_defs example_defs)

end
